theory Spec2Isabelle
  imports Complex_Main "HOL-Library.Sublist"
begin

section \<open>Python values\<close>

text \<open>
  The pricing engine computes with Python floats. They are modelled as real numbers:
  every decimal literal of the source is the exact rational it denotes and the
  arithmetic is exact, so the binary rounding error of IEEE doubles (and their
  infinities and NaN) is outside the model. What the source rounds on purpose, with
  \<^verbatim>\<open>round(x, n)\<close>, is modelled by \<open>py_round\<close>: Python rounds to n decimals,
  a tie going to the even neighbour.
\<close>

definition round_half_even :: "real \<Rightarrow> int" where
  "round_half_even x =
     (let f = \<lfloor>x\<rfloor>; d = x - of_int f
      in if d < 1 / 2 then f
         else if 1 / 2 < d then f + 1
         else if even f then f else f + 1)"

definition py_round :: "real \<Rightarrow> nat \<Rightarrow> real" where
  "py_round x n = of_int (round_half_even (x * 10 ^ n)) / 10 ^ n"

text \<open>
  Exceptions are values. \<open>ValueError\<close> and \<open>RuntimeError\<close> carry the message of the
  source; \<open>KeyError\<close> is a failed \<^verbatim>\<open>d[k]\<close>, \<open>TypeError\<close> the \<^verbatim>\<open>round\<close> of a
  complex number (what \<^verbatim>\<open>x ** 0.5\<close> is for a negative float).
\<close>

datatype error = ValueError string | RuntimeError string | KeyError string | TypeError

definition subscript :: "('k \<times> 'v) list \<Rightarrow> 'k \<Rightarrow> string \<Rightarrow> error + 'v" where
  \<comment> \<open>\<^verbatim>\<open>d[k]\<close> on a dict kept in insertion order; the string names the key in the error\<close>
  "subscript d k name = (case map_of d k of None \<Rightarrow> Inl (KeyError name) | Some v \<Rightarrow> Inr v)"

definition get_default :: "('k \<times> 'v) list \<Rightarrow> 'k \<Rightarrow> 'v \<Rightarrow> 'v" where
  \<comment> \<open>\<^verbatim>\<open>d.get(k, default)\<close>\<close>
  "get_default d k dflt = (case map_of d k of None \<Rightarrow> dflt | Some v \<Rightarrow> v)"

definition then_do :: "error + 'a \<Rightarrow> ('a \<Rightarrow> error + 'b) \<Rightarrow> error + 'b" where
  \<comment> \<open>sequencing: an exception of the first computation skips the second\<close>
  "then_do m f = (case m of Inl e \<Rightarrow> Inl e | Inr v \<Rightarrow> f v)"

subsection \<open>Strings\<close>

text \<open>
  A Python \<^verbatim>\<open>str\<close> is a sequence of Unicode code points, and \<^verbatim>\<open>len\<close> counts them:
  the transcript is a list of code points (\<open>pystr\<close>). The identifiers of the program
  (task names, city names, flags, messages) are ASCII and are HOL strings; \<open>str\<close> gives
  the code points of one.

  \<^verbatim>\<open>str.lower\<close>, the white space that \<^verbatim>\<open>str.strip\<close> and the pattern \<^verbatim>\<open>\s\<close> recognise and
  the decimal digits that \<^verbatim>\<open>\d\<close> and \<^verbatim>\<open>float\<close> recognise are tables of the Python
  runtime, not of this repository. They are a parameter \<open>U\<close> of the model, and every
  theorem holds for all of them; \<open>ascii\<close> is the instance used to evaluate examples.
\<close>

type_synonym pystr = "nat list"

definition str :: "string \<Rightarrow> pystr" where
  "str cs = map of_char cs"

record unicode =
  lower :: "pystr \<Rightarrow> pystr"
  isspace :: "nat \<Rightarrow> bool"
  decimal :: "nat \<Rightarrow> nat option"

definition ascii :: unicode where
  "ascii =
     \<lparr>lower = map (\<lambda>c. if 65 \<le> c \<and> c \<le> 90 then c + 32 else c),
      isspace = (\<lambda>c. c = 32 \<or> (9 \<le> c \<and> c \<le> 13) \<or> (28 \<le> c \<and> c \<le> 31)),
      decimal = (\<lambda>c. if 48 \<le> c \<and> c \<le> 57 then Some (c - 48) else None)\<rparr>"

definition strip :: "unicode \<Rightarrow> pystr \<Rightarrow> pystr" where
  \<comment> \<open>\<^verbatim>\<open>s.strip()\<close>\<close>
  "strip U s = rev (dropWhile (isspace U) (rev (dropWhile (isspace U) s)))"

definition contains :: "pystr \<Rightarrow> pystr \<Rightarrow> bool" where
  \<comment> \<open>\<^verbatim>\<open>sub in s\<close>\<close>
  "contains sub s = sublist sub s"

definition join :: "string \<Rightarrow> string list \<Rightarrow> string" where
  \<comment> \<open>\<^verbatim>\<open>sep.join(xs)\<close>\<close>
  "join sep xs = (case xs of [] \<Rightarrow> [] | y # ys \<Rightarrow> foldl (\<lambda>acc x. acc @ sep @ x) y ys)"

subsection \<open>The size pattern\<close>

text \<open>
  \<^verbatim>\<open>re.search(r'(\d+(?:\.\d+)?)\s*mX', s)\<close>, with the superscript two (U+00B2) for X:
  the leftmost position at which the pattern matches, and there the first match in the order in which a backtracking
  matcher tries them: the longest run of digits first, with a fraction before without
  one, the longest fraction first. The white space before the unit does not change the
  group, so only whether some amount of it leads to the unit is computed. The group is
  kept as its two digit strings (the fraction empty when there is none).
\<close>

definition unit_marker :: pystr where
  \<comment> \<open>\<^verbatim>\<open>m\<close> and the superscript two, U+00B2\<close>
  "unit_marker = [109, 178]"

definition dot :: nat where
  "dot = 46"

definition is_decimal :: "unicode \<Rightarrow> nat \<Rightarrow> bool" where
  "is_decimal U c = (decimal U c \<noteq> None)"

fun ws_then_unit :: "unicode \<Rightarrow> pystr \<Rightarrow> bool" where
  "ws_then_unit U [] = False"
| "ws_then_unit U (c # cs) = (prefix unit_marker (c # cs) \<or> (isspace U c \<and> ws_then_unit U cs))"

definition digit_runs :: "unicode \<Rightarrow> pystr \<Rightarrow> (pystr \<times> pystr) list" where
  \<comment> \<open>what \<^verbatim>\<open>\d+\<close> can take from the front of s, longest first, with what is left\<close>
  "digit_runs U s =
     (let n = length (takeWhile (is_decimal U) s)
      in map (\<lambda>k. (take k s, drop k s)) (rev [1..<Suc n]))"

definition number_candidates :: "unicode \<Rightarrow> pystr \<Rightarrow> ((pystr \<times> pystr) \<times> pystr) list" where
  "number_candidates U s =
     concat (map (\<lambda>(ds, r).
        (case r of
           [] \<Rightarrow> []
         | c # r' \<Rightarrow> if c = dot then map (\<lambda>(fs, r''). ((ds, fs), r'')) (digit_runs U r') else [])
        @ [((ds, []), r)]) (digit_runs U s))"

definition match_here :: "unicode \<Rightarrow> pystr \<Rightarrow> (pystr \<times> pystr) option" where
  "match_here U s = map_option fst (find (\<lambda>(g, r). ws_then_unit U r) (number_candidates U s))"

fun search_size :: "unicode \<Rightarrow> pystr \<Rightarrow> (pystr \<times> pystr) option" where
  "search_size U [] = None"
| "search_size U (c # cs) =
     (case match_here U (c # cs) of Some g \<Rightarrow> Some g | None \<Rightarrow> search_size U cs)"

definition digits_value :: "unicode \<Rightarrow> pystr \<Rightarrow> nat" where
  "digits_value U ds = foldl (\<lambda>a c. 10 * a + (case decimal U c of None \<Rightarrow> 0 | Some v \<Rightarrow> v)) 0 ds"

definition to_float :: "unicode \<Rightarrow> pystr \<times> pystr \<Rightarrow> real" where
  \<comment> \<open>\<^verbatim>\<open>float(size_match.group(1))\<close>\<close>
  "to_float U g = real (digits_value U (fst g)) + real (digits_value U (snd g)) / 10 ^ length (snd g)"

subsection \<open>Nested dicts of numbers\<close>

text \<open>
  The material and labour tables are dicts of floats and of further dicts. They are kept
  as the source writes them, in insertion order, and read with the source's operations.
\<close>

datatype pyval = Num real | Dict "(string \<times> pyval) list"

definition item :: "pyval \<Rightarrow> string \<Rightarrow> error + pyval" where
  \<comment> \<open>\<^verbatim>\<open>d[k]\<close>\<close>
  "item d k = (case d of Dict kvs \<Rightarrow> subscript kvs k k | Num x \<Rightarrow> Inl TypeError)"

definition number :: "pyval \<Rightarrow> error + real" where
  \<comment> \<open>a value used in arithmetic\<close>
  "number v = (case v of Num x \<Rightarrow> Inr x | Dict kvs \<Rightarrow> Inl TypeError)"

definition num_item :: "pyval \<Rightarrow> string \<Rightarrow> error + real" where
  "num_item d k = then_do (item d k) number"

definition num_get :: "pyval \<Rightarrow> string \<Rightarrow> real \<Rightarrow> error + real" where
  \<comment> \<open>\<^verbatim>\<open>d.get(k, default)\<close>, the result used in arithmetic\<close>
  "num_get d k dflt =
     (case d of Dict kvs \<Rightarrow> number (get_default kvs k (Num dflt)) | Num x \<Rightarrow> Inl TypeError)"

definition has_key :: "pyval \<Rightarrow> string \<Rightarrow> bool" where
  \<comment> \<open>\<^verbatim>\<open>k in d\<close>\<close>
  "has_key d k = (case d of Dict kvs \<Rightarrow> map_of kvs k \<noteq> None | Num x \<Rightarrow> False)"

definition items :: "pyval \<Rightarrow> error + (string \<times> pyval) list" where
  \<comment> \<open>\<^verbatim>\<open>d.items()\<close>\<close>
  "items d = (case d of Dict kvs \<Rightarrow> Inr kvs | Num x \<Rightarrow> Inl TypeError)"

subsection \<open>The dicts that travel between the modules\<close>

text \<open>
  The requirements are a dict; the scorer reads it with \<^verbatim>\<open>.get(key, default)\<close>, so a key
  may be absent: each key is an optional field (\<open>rq_k\<close> for the key \<open>k\<close>).
\<close>

record requirements =
  rq_bathroom_size :: "real option"
  rq_location :: "string option"
  rq_tasks :: "string list option"
  rq_budget_conscious :: "bool option"
  rq_original_transcript :: "pystr option"

text \<open>
  A task price line is a dict as well. The engine builds it with the key \<open>task\<close>; other
  callers (the tests) pass lines with the key \<open>task_type\<close>. Each key is an optional
  field (\<open>tp_k\<close> for the key \<open>k\<close>), and \<^verbatim>\<open>.get(key, default)\<close> reads it through
  \<open>get_or\<close>.
\<close>

record task_price =
  tp_task :: "string option"
  tp_task_type :: "string option"
  tp_materials :: "real option"
  tp_labor :: "real option"
  tp_total :: "real option"
  tp_city_multiplier :: "real option"
  tp_error :: "string option"

definition get_or :: "'a option \<Rightarrow> 'a \<Rightarrow> 'a" where
  "get_or field dflt = (case field of None \<Rightarrow> dflt | Some v \<Rightarrow> v)"

section \<open>MaterialDatabase (pricing\_logic/material\_db.py)\<close>

definition load_default_materials :: pyval where
  "load_default_materials = Dict
     [(''tiles'', Dict
        [(''base_cost_per_m2'', Num 45.0),
         (''size_factor'', Num 0.95),
         (''quality_multipliers'', Dict
            [(''basic'', Num 0.8), (''standard'', Num 1.0),
             (''premium'', Num 1.4), (''luxury'', Num 2.0)])]),
      (''plumbing'', Dict
        [(''shower'', Dict [(''base_cost'', Num 180.0), (''size_factor'', Num 0.9)]),
         (''toilet'', Dict [(''base_cost'', Num 120.0), (''size_factor'', Num 1.0)]),
         (''sink'', Dict [(''base_cost'', Num 85.0), (''size_factor'', Num 0.95)]),
         (''bath'', Dict [(''base_cost'', Num 350.0), (''size_factor'', Num 1.1)])]),
      (''painting'', Dict
        [(''base_cost_per_m2'', Num 8.5),
         (''size_factor'', Num 1.05),
         (''coats'', Num 2),
         (''quality_multipliers'', Dict
            [(''basic'', Num 0.7), (''standard'', Num 1.0), (''premium'', Num 1.3)])]),
      (''flooring'', Dict
        [(''base_cost_per_m2'', Num 32.0),
         (''size_factor'', Num 0.98),
         (''quality_multipliers'', Dict
            [(''basic'', Num 0.8), (''standard'', Num 1.0), (''premium'', Num 1.5)])]),
      (''vanity'', Dict
        [(''base_cost'', Num 220.0),
         (''size_factor'', Num 1.0),
         (''quality_multipliers'', Dict
            [(''basic'', Num 0.7), (''standard'', Num 1.0), (''premium'', Num 1.6)])]),
      (''electrical'', Dict
        [(''base_cost'', Num 45.0),
         (''size_factor'', Num 1.0),
         (''per_outlet'', Num 15.0)])]"

definition materials :: pyval where
  \<comment> \<open>\<^verbatim>\<open>self.materials\<close>, as the constructor sets it\<close>
  "materials = load_default_materials"

text \<open>
  \<^verbatim>\<open>bathroom_size ** 0.5\<close> is the square root of a float that is not negative. Of a
  negative float it is a complex number, the products stay complex, and the closing
  \<^verbatim>\<open>round\<close> raises TypeError; the lookups before it have been done by then.
\<close>

definition wall_area :: "real \<Rightarrow> real" where
  \<comment> \<open>\<^verbatim>\<open>(bathroom_size ** 0.5 * 4) * wall_height\<close> with \<^verbatim>\<open>wall_height = 2.4\<close>\<close>
  "wall_area bathroom_size = (sqrt bathroom_size * 4) * 2.4"

definition calculate_tiles_cost :: "pyval \<Rightarrow> real \<Rightarrow> string \<Rightarrow> error + real" where
  "calculate_tiles_cost mats bathroom_size quality =
     then_do (num_item mats ''base_cost_per_m2'') (\<lambda>base_cost.
     then_do (num_item mats ''size_factor'') (\<lambda>size_factor.
     then_do (item mats ''quality_multipliers'') (\<lambda>multipliers.
     then_do (num_get multipliers quality 1.0) (\<lambda>quality_mult.
       if bathroom_size < 0 then Inl TypeError
       else Inr (py_round (wall_area bathroom_size * base_cost * size_factor * quality_mult) 2)))))"

definition calculate_plumbing_cost :: "pyval \<Rightarrow> real \<Rightarrow> error + real" where
  "calculate_plumbing_cost mats bathroom_size =
     then_do (items mats) (\<lambda>fixtures.
     then_do (foldl (\<lambda>acc (fixture, data).
                then_do acc (\<lambda>total_cost.
                then_do (num_item data ''base_cost'') (\<lambda>base_cost.
                then_do (num_item data ''size_factor'') (\<lambda>size_factor.
                  let fixture_cost = base_cost * size_factor
                  in Inr (total_cost + fixture_cost)))))
              (Inr 0.0) fixtures) (\<lambda>total_cost.
       Inr (py_round total_cost 2)))"

definition calculate_painting_cost :: "pyval \<Rightarrow> real \<Rightarrow> string \<Rightarrow> error + real" where
  "calculate_painting_cost mats bathroom_size quality =
     then_do (num_item mats ''base_cost_per_m2'') (\<lambda>base_cost.
     then_do (num_item mats ''size_factor'') (\<lambda>size_factor.
     then_do (item mats ''quality_multipliers'') (\<lambda>multipliers.
     then_do (num_get multipliers quality 1.0) (\<lambda>quality_mult.
     then_do (num_item mats ''coats'') (\<lambda>coats.
       if bathroom_size < 0 then Inl TypeError
       else Inr (py_round
                   (wall_area bathroom_size * base_cost * size_factor * quality_mult * coats) 2))))))"

definition calculate_flooring_cost :: "pyval \<Rightarrow> real \<Rightarrow> string \<Rightarrow> error + real" where
  "calculate_flooring_cost mats bathroom_size quality =
     then_do (num_item mats ''base_cost_per_m2'') (\<lambda>base_cost.
     then_do (num_item mats ''size_factor'') (\<lambda>size_factor.
     then_do (item mats ''quality_multipliers'') (\<lambda>multipliers.
     then_do (num_get multipliers quality 1.0) (\<lambda>quality_mult.
       Inr (py_round (bathroom_size * base_cost * size_factor * quality_mult) 2)))))"

definition calculate_vanity_cost :: "pyval \<Rightarrow> string \<Rightarrow> error + real" where
  "calculate_vanity_cost mats quality =
     then_do (num_item mats ''base_cost'') (\<lambda>base_cost.
     then_do (item mats ''quality_multipliers'') (\<lambda>multipliers.
     then_do (num_get multipliers quality 1.0) (\<lambda>quality_mult.
       Inr (py_round (base_cost * quality_mult) 2))))"

definition outlets_for :: "real \<Rightarrow> real" where
  \<comment> \<open>the outlet count both the material and the labour model derive from the size\<close>
  "outlets_for bathroom_size =
     (if bathroom_size \<le> 4 then 2 else if bathroom_size \<le> 6 then 3 else 4)"

definition calculate_electrical_cost :: "pyval \<Rightarrow> real \<Rightarrow> error + real" where
  "calculate_electrical_cost mats bathroom_size =
     then_do (num_item mats ''base_cost'') (\<lambda>base_cost.
     then_do (num_item mats ''size_factor'') (\<lambda>size_factor.
       let outlets = outlets_for bathroom_size
       in then_do (num_item mats ''per_outlet'') (\<lambda>per_outlet.
            let outlet_cost = outlets * per_outlet
            in Inr (py_round (base_cost * size_factor + outlet_cost) 2))))"

definition get_task_materials_cost :: "string \<Rightarrow> real \<Rightarrow> string \<Rightarrow> error + real" where
  "get_task_materials_cost task bathroom_size quality =
     (if \<not> has_key materials task then Inr 0.0
      else
        then_do (item materials task) (\<lambda>task_materials.
          if task = ''tiles'' then calculate_tiles_cost task_materials bathroom_size quality
          else if task = ''plumbing'' then calculate_plumbing_cost task_materials bathroom_size
          else if task = ''painting'' then calculate_painting_cost task_materials bathroom_size quality
          else if task = ''flooring'' then calculate_flooring_cost task_materials bathroom_size quality
          else if task = ''vanity'' then calculate_vanity_cost task_materials quality
          else if task = ''electrical'' then calculate_electrical_cost task_materials bathroom_size
          else Inr 0.0))"

section \<open>LaborCalculator (pricing\_logic/labor\_calc.py)\<close>

definition hourly_rates :: "(string \<times> real) list" where
  "hourly_rates =
     [(''tiles'', 45.0), (''plumbing'', 55.0), (''painting'', 35.0),
      (''flooring'', 40.0), (''vanity'', 42.0), (''electrical'', 48.0)]"

definition base_time_estimates :: pyval where
  "base_time_estimates = Dict
     [(''tiles'', Dict
        [(''per_m2'', Num 2.5), (''setup_time'', Num 2.0), (''cleanup_time'', Num 1.5)]),
      (''plumbing'', Dict
        [(''shower'', Num 8.0), (''toilet'', Num 4.0), (''sink'', Num 3.0), (''bath'', Num 6.0),
         (''setup_time'', Num 1.0), (''testing_time'', Num 2.0)]),
      (''painting'', Dict
        [(''per_m2'', Num 0.3), (''prep_time'', Num 1.5), (''drying_time'', Num 0.0),
         (''cleanup_time'', Num 1.0)]),
      (''flooring'', Dict
        [(''per_m2'', Num 1.8), (''prep_time'', Num 2.0), (''cleanup_time'', Num 1.0)]),
      (''vanity'', Dict
        [(''base_time'', Num 3.0), (''plumbing_time'', Num 1.5), (''setup_time'', Num 0.5)]),
      (''electrical'', Dict
        [(''base_time'', Num 2.0), (''per_outlet'', Num 0.5), (''testing_time'', Num 1.0)])]"

definition get_complexity_multiplier :: "string \<Rightarrow> real" where
  "get_complexity_multiplier complexity =
     get_default [(''simple'', 0.8), (''standard'', 1.0), (''complex'', 1.3)] complexity 1.0"

definition calculate_tiles_duration :: "pyval \<Rightarrow> real \<Rightarrow> string \<Rightarrow> error + real" where
  "calculate_tiles_duration estimates bathroom_size complexity =
     then_do (num_item estimates ''per_m2'') (\<lambda>per_m2.
       let area_time = wall_area bathroom_size * per_m2
       in then_do (num_item estimates ''setup_time'') (\<lambda>setup_time.
          then_do (num_item estimates ''cleanup_time'') (\<lambda>cleanup_time.
            let total_time = area_time + setup_time + cleanup_time;
                complexity_mult = get_complexity_multiplier complexity
            in if bathroom_size < 0 then Inl TypeError
               else Inr (py_round (total_time * complexity_mult) 1))))"

definition calculate_plumbing_duration :: "pyval \<Rightarrow> string \<Rightarrow> error + real" where
  \<comment> \<open>the source leaves the bath out: "bath is optional, not included in default"\<close>
  "calculate_plumbing_duration estimates complexity =
     then_do (num_item estimates ''shower'') (\<lambda>shower.
     then_do (num_item estimates ''toilet'') (\<lambda>toilet.
     then_do (num_item estimates ''sink'') (\<lambda>sink.
       let fixture_time = sum_list [shower, toilet, sink]
       in then_do (num_item estimates ''setup_time'') (\<lambda>setup_time.
          then_do (num_item estimates ''testing_time'') (\<lambda>testing_time.
            let total_time = fixture_time + setup_time + testing_time;
                complexity_mult = get_complexity_multiplier complexity
            in Inr (py_round (total_time * complexity_mult) 1))))))"

definition calculate_painting_duration :: "pyval \<Rightarrow> real \<Rightarrow> string \<Rightarrow> error + real" where
  "calculate_painting_duration estimates bathroom_size complexity =
     then_do (num_item estimates ''per_m2'') (\<lambda>per_m2.
       let area_time = wall_area bathroom_size * per_m2
       in then_do (num_item estimates ''prep_time'') (\<lambda>prep_time.
          then_do (num_item estimates ''cleanup_time'') (\<lambda>cleanup_time.
            let total_time = area_time + prep_time + cleanup_time;
                complexity_mult = get_complexity_multiplier complexity
            in if bathroom_size < 0 then Inl TypeError
               else Inr (py_round (total_time * complexity_mult) 1))))"

definition calculate_flooring_duration :: "pyval \<Rightarrow> real \<Rightarrow> string \<Rightarrow> error + real" where
  "calculate_flooring_duration estimates bathroom_size complexity =
     then_do (num_item estimates ''per_m2'') (\<lambda>per_m2.
       let area_time = bathroom_size * per_m2
       in then_do (num_item estimates ''prep_time'') (\<lambda>prep_time.
          then_do (num_item estimates ''cleanup_time'') (\<lambda>cleanup_time.
            let total_time = area_time + prep_time + cleanup_time;
                complexity_mult = get_complexity_multiplier complexity
            in Inr (py_round (total_time * complexity_mult) 1))))"

definition calculate_vanity_duration :: "pyval \<Rightarrow> string \<Rightarrow> error + real" where
  "calculate_vanity_duration estimates complexity =
     then_do (num_item estimates ''base_time'') (\<lambda>base_time.
     then_do (num_item estimates ''plumbing_time'') (\<lambda>plumbing_time.
     then_do (num_item estimates ''setup_time'') (\<lambda>setup_time.
       let total_time = base_time + plumbing_time + setup_time;
           complexity_mult = get_complexity_multiplier complexity
       in Inr (py_round (total_time * complexity_mult) 1))))"

definition calculate_electrical_duration :: "pyval \<Rightarrow> real \<Rightarrow> string \<Rightarrow> error + real" where
  "calculate_electrical_duration estimates bathroom_size complexity =
     (let outlets = outlets_for bathroom_size
      in then_do (num_item estimates ''per_outlet'') (\<lambda>per_outlet.
           let outlet_time = outlets * per_outlet
           in then_do (num_item estimates ''base_time'') (\<lambda>base_time.
              then_do (num_item estimates ''testing_time'') (\<lambda>testing_time.
                let total_time = base_time + outlet_time + testing_time;
                    complexity_mult = get_complexity_multiplier complexity
                in Inr (py_round (total_time * complexity_mult) 1)))))"

definition get_task_duration :: "string \<Rightarrow> real \<Rightarrow> string \<Rightarrow> error + real" where
  "get_task_duration task bathroom_size complexity =
     (if \<not> has_key base_time_estimates task then Inr 0.0
      else
        then_do (item base_time_estimates task) (\<lambda>base_estimates.
          if task = ''tiles'' then calculate_tiles_duration base_estimates bathroom_size complexity
          else if task = ''plumbing'' then calculate_plumbing_duration base_estimates complexity
          else if task = ''painting'' then calculate_painting_duration base_estimates bathroom_size complexity
          else if task = ''flooring'' then calculate_flooring_duration base_estimates bathroom_size complexity
          else if task = ''vanity'' then calculate_vanity_duration base_estimates complexity
          else if task = ''electrical'' then calculate_electrical_duration base_estimates bathroom_size complexity
          else Inr 0.0))"

definition calculate_labor_cost :: "string \<Rightarrow> real \<Rightarrow> string \<Rightarrow> error + real" where
  "calculate_labor_cost task bathroom_size complexity =
     (if map_of hourly_rates task = None then Inr 0.0
      else
        then_do (get_task_duration task bathroom_size complexity) (\<lambda>total_hours.
        then_do (subscript hourly_rates task task) (\<lambda>hourly_rate.
          let complexity_multiplier = get_complexity_multiplier complexity;
              total_cost = total_hours * hourly_rate * complexity_multiplier
          in Inr (py_round total_cost 2))))"

section \<open>VATRules (pricing\_logic/vat\_rules.py)\<close>

text \<open>
  The rule tables are the ones the constructors build; the recalibration hooks
  (\<^verbatim>\<open>update_vat_rates\<close> and the like) are not part of the model.
\<close>

definition vat_rates :: "(string \<times> real) list" where
  "vat_rates = [(''standard'', 0.20), (''reduced'', 0.10), (''super_reduced'', 0.055)]"

definition task_vat_classification :: "(string \<times> string) list" where
  "task_vat_classification =
     [(''tiles'', ''reduced''), (''plumbing'', ''reduced''), (''painting'', ''reduced''),
      (''flooring'', ''reduced''), (''vanity'', ''standard''), (''electrical'', ''reduced'')]"

record reduced_conditions =
  min_work_value :: real
  max_work_value :: real
  property_age :: int
  work_type :: string

definition vat_conditions :: "(string \<times> reduced_conditions) list" where
  "vat_conditions =
     [(''reduced'', \<lparr>min_work_value = 1000.0, max_work_value = 50000.0,
                     property_age = 2, work_type = ''renovation''\<rparr>)]"

definition is_eligible_for_reduced_vat :: "real \<Rightarrow> int \<Rightarrow> error + bool" where
  "is_eligible_for_reduced_vat work_value age =
     then_do (subscript vat_conditions ''reduced'' ''reduced'') (\<lambda>conditions.
       if \<not> (min_work_value conditions \<le> work_value \<and> work_value \<le> max_work_value conditions)
       then Inr False
       else if age < property_age conditions then Inr False
       else Inr True)"

definition get_vat_rate :: "string \<Rightarrow> real \<Rightarrow> int \<Rightarrow> error + real" where
  "get_vat_rate task work_value age =
     (if map_of task_vat_classification task = None then subscript vat_rates ''standard'' ''standard''
      else
        then_do (subscript task_vat_classification task task) (\<lambda>vat_type.
          if vat_type = ''reduced'' then
            then_do (is_eligible_for_reduced_vat work_value age) (\<lambda>eligible.
              if eligible then subscript vat_rates ''reduced'' ''reduced''
              else subscript vat_rates ''standard'' ''standard'')
          else subscript vat_rates vat_type vat_type))"

record task_vat =
  vat_rate :: real
  vat_amount :: real
  vat_type :: string

definition calculate_task_vat :: "string \<Rightarrow> real \<Rightarrow> real \<Rightarrow> int \<Rightarrow> error + task_vat" where
  "calculate_task_vat task amount work_value age =
     then_do (get_vat_rate task work_value age) (\<lambda>rate.
       let amount_of_vat = amount * rate
       in Inr \<lparr>vat_rate = rate,
                vat_amount = py_round amount_of_vat 2,
                vat_type = get_default task_vat_classification task ''standard''\<rparr>)"

definition calculate_total_vat :: "task_price list \<Rightarrow> real \<Rightarrow> int \<Rightarrow> error + real" where
  "calculate_total_vat task_prices work_value age =
     then_do (foldl (\<lambda>acc task_price.
                then_do acc (\<lambda>total_vat.
                  let task_type = get_or (tp_task_type task_price) '''';
                      materials_amount = get_or (tp_materials task_price) 0.0;
                      labor_amount = get_or (tp_labor task_price) 0.0
                  in then_do (calculate_task_vat task_type materials_amount work_value age) (\<lambda>materials_vat.
                     then_do (calculate_task_vat task_type labor_amount work_value age) (\<lambda>labor_vat.
                       Inr (total_vat + (vat_amount materials_vat + vat_amount labor_vat))))))
              (Inr 0.0) task_prices) (\<lambda>total_vat.
       Inr (py_round total_vat 2))"

section \<open>ConfidenceScorer (pricing\_logic/confidence\_scorer.py)\<close>

text \<open>
  The scorer keeps the flags of the last scoring call in \<^verbatim>\<open>self.flags\<close>. That list is
  the state of the model: a method that appends to it takes the list and returns the
  new one. An upper bound \<open>None\<close> of a size range is \<^verbatim>\<open>float('inf')\<close>.
\<close>

record size_range =
  sr_range :: "real \<times> real option"
  sr_score :: real
  sr_flag :: "string option"

definition bathroom_size_factors :: "(string \<times> size_range) list" where
  \<comment> \<open>\<^verbatim>\<open>self.confidence_factors['bathroom_size']\<close>\<close>
  "bathroom_size_factors =
     [(''very_small'', \<lparr>sr_range = (0, Some 2), sr_score = 0.7, sr_flag = Some ''unusually_small''\<rparr>),
      (''small'', \<lparr>sr_range = (2, Some 4), sr_score = 0.9, sr_flag = None\<rparr>),
      (''medium'', \<lparr>sr_range = (4, Some 8), sr_score = 1.0, sr_flag = None\<rparr>),
      (''large'', \<lparr>sr_range = (8, Some 12), sr_score = 0.95, sr_flag = None\<rparr>),
      (''very_large'', \<lparr>sr_range = (12, None), sr_score = 0.8, sr_flag = Some ''unusually_large''\<rparr>)]"

definition task_complexity :: "(string \<times> string list) list" where
  \<comment> \<open>\<^verbatim>\<open>self.confidence_factors['task_complexity']\<close>\<close>
  "task_complexity =
     [(''simple'', [''painting'', ''vanity'']),
      (''moderate'', [''flooring'', ''electrical'']),
      (''complex'', [''tiles'', ''plumbing''])]"

definition location_confidence :: "(string \<times> real) list" where
  \<comment> \<open>\<^verbatim>\<open>self.confidence_factors['location_confidence']\<close>\<close>
  "location_confidence =
     [(''paris'', 0.95), (''marseille'', 1.0), (''lyon'', 0.9), (''toulouse'', 0.9),
      (''nice'', 0.9), (''nantes'', 0.9), (''strasbourg'', 0.9), (''montpellier'', 0.9)]"

record price_threshold =
  pt_multiplier :: real
  pt_score :: real
  pt_flag :: "string option"

definition price_thresholds :: "(string \<times> price_threshold) list" where
  \<comment> \<open>\<^verbatim>\<open>self.confidence_factors['price_thresholds']\<close>\<close>
  "price_thresholds =
     [(''very_low'', \<lparr>pt_multiplier = 0.5, pt_score = 0.6, pt_flag = Some ''suspiciously_low''\<rparr>),
      (''low'', \<lparr>pt_multiplier = 0.8, pt_score = 0.8, pt_flag = Some ''below_average''\<rparr>),
      (''normal'', \<lparr>pt_multiplier = 1.0, pt_score = 1.0, pt_flag = None\<rparr>),
      (''high'', \<lparr>pt_multiplier = 1.3, pt_score = 0.9, pt_flag = Some ''above_average''\<rparr>),
      (''very_high'', \<lparr>pt_multiplier = 1.8, pt_score = 0.7, pt_flag = Some ''suspiciously_high''\<rparr>)]"

record price_history =
  ph_min :: real
  ph_max :: real
  ph_avg :: real

definition historical_pricing :: "(string \<times> price_history) list" where
  "historical_pricing =
     [(''tiles'', \<lparr>ph_min = 35, ph_max = 65, ph_avg = 50\<rparr>),
      (''plumbing'', \<lparr>ph_min = 120, ph_max = 200, ph_avg = 160\<rparr>),
      (''painting'', \<lparr>ph_min = 6, ph_max = 12, ph_avg = 9\<rparr>),
      (''flooring'', \<lparr>ph_min = 25, ph_max = 45, ph_avg = 35\<rparr>),
      (''vanity'', \<lparr>ph_min = 180, ph_max = 300, ph_avg = 240\<rparr>),
      (''electrical'', \<lparr>ph_min = 35, ph_max = 60, ph_avg = 48\<rparr>)]"

definition in_range :: "real \<times> real option \<Rightarrow> real \<Rightarrow> bool" where
  \<comment> \<open>\<^verbatim>\<open>min_size <= bathroom_size < max_size\<close>\<close>
  "in_range r x = (fst r \<le> x \<and> (case snd r of None \<Rightarrow> True | Some hi \<Rightarrow> x < hi))"

definition add_flag :: "string option \<Rightarrow> string list \<Rightarrow> string list" where
  \<comment> \<open>\<^verbatim>\<open>if data['flag']: self.flags.append(data['flag'])\<close>; an empty string is false too\<close>
  "add_flag flag flags =
     (case flag of None \<Rightarrow> flags | Some f \<Rightarrow> if f = [] then flags else flags @ [f])"

definition calculate_size_confidence :: "real \<Rightarrow> string list \<Rightarrow> real \<times> string list" where
  "calculate_size_confidence bathroom_size flags =
     (case find (\<lambda>(size_category, data). in_range (sr_range data) bathroom_size)
             bathroom_size_factors of
        Some (size_category, data) \<Rightarrow> (sr_score data, add_flag (sr_flag data) flags)
      | None \<Rightarrow> (0.7, flags @ [''unusually_large'']))"

definition calculate_location_confidence :: "string \<Rightarrow> real" where
  "calculate_location_confidence location = get_default location_confidence location 0.8"

definition calculate_task_confidence :: "string list \<Rightarrow> string list \<Rightarrow> real \<times> string list" where
  "calculate_task_confidence tasks flags =
     (if tasks = [] then (0.5, flags @ [''no_tasks_detected''])
      else
        let flags1 = (if length tasks = 1 then flags @ [''single_task_project''] else flags);
            flags2 = (if length tasks > 5 then flags1 @ [''many_tasks''] else flags1);
            essential_tasks = [''plumbing'', ''tiles''];
            missing_essential = filter (\<lambda>task. task \<notin> set tasks) essential_tasks;
            flags3 = (if missing_essential \<noteq> []
                      then flags2 @ [''missing_essential_tasks: '' @ join '', '' missing_essential]
                      else flags2)
        in if length tasks \<le> 2 then (0.8, flags3)
           else if length tasks \<le> 4 then (0.9, flags3)
           else (0.85, flags3))"

definition calculate_price_confidence ::
    "task_price list \<Rightarrow> real \<Rightarrow> string list \<Rightarrow> real \<times> string list" where
  \<comment> \<open>the two totals the source sums from the lines are never used and are left out\<close>
  "calculate_price_confidence task_prices final_price flags =
     (if task_prices = [] then (0.5, flags)
      else
        let bathroom_size = (4.0 :: real);
            price_per_m2 = (if bathroom_size > 0 then final_price / bathroom_size else 0);
            historical_avg = sum_list (map (\<lambda>(task, data). ph_avg data) historical_pricing);
            price_ratio = (if historical_avg > 0 then price_per_m2 / historical_avg else 1.0)
        in case find (\<lambda>(category, data). price_ratio \<le> pt_multiplier data) price_thresholds of
             Some (category, data) \<Rightarrow> (pt_score data, add_flag (pt_flag data) flags)
           | None \<Rightarrow> (0.7, flags @ [''suspiciously_high'']))"

definition calculate_complexity_confidence :: "string list \<Rightarrow> real" where
  "calculate_complexity_confidence tasks =
     (if tasks = [] then 0.5
      else
        let complexity_scores =
              map (\<lambda>task.
                     if task \<in> set (get_default task_complexity ''simple'' []) then 0.9
                     else if task \<in> set (get_default task_complexity ''moderate'' []) then 0.95
                     else if task \<in> set (get_default task_complexity ''complex'' []) then 0.85
                     else 0.8) tasks
        in sum_list complexity_scores / real (length complexity_scores))"

text \<open>
  The five factors of one scoring call, computed in the order of the source, the flags
  going from one to the next; the call starts from an empty flag list.
\<close>

record confidence_factors =
  size_confidence :: real
  location_conf :: real
  task_confidence :: real
  price_confidence :: real
  complexity_confidence :: real
  fired :: "string list"

definition score_factors :: "requirements \<Rightarrow> task_price list \<Rightarrow> real \<Rightarrow> confidence_factors" where
  "score_factors reqs task_prices final_price =
     (let flags = [];
          (size_c, flags) = calculate_size_confidence (get_or (rq_bathroom_size reqs) 4.0) flags;
          location_c = calculate_location_confidence (get_or (rq_location reqs) ''marseille'');
          (task_c, flags) = calculate_task_confidence (get_or (rq_tasks reqs) []) flags;
          (price_c, flags) = calculate_price_confidence task_prices final_price flags;
          complexity_c = calculate_complexity_confidence (get_or (rq_tasks reqs) [])
      in \<lparr>size_confidence = size_c, location_conf = location_c, task_confidence = task_c,
           price_confidence = price_c, complexity_confidence = complexity_c, fired = flags\<rparr>)"

definition calculate_confidence ::
    "requirements \<Rightarrow> task_price list \<Rightarrow> real \<Rightarrow> string list \<Rightarrow> real \<times> string list" where
  \<comment> \<open>the last argument is \<^verbatim>\<open>self.flags\<close> before the call, which the call resets\<close>
  "calculate_confidence reqs task_prices final_price old_flags =
     (let f = score_factors reqs task_prices final_price;
          weighted_confidence =
            size_confidence f * 0.15 + location_conf f * 0.10 + task_confidence f * 0.20 +
            price_confidence f * 0.35 + complexity_confidence f * 0.20;
          confidence_percentage = weighted_confidence * 100;
          flag_penalty = min (real (length (fired f)) * 0.05) 0.20;
          confidence_percentage = max (confidence_percentage * (1 - flag_penalty)) 0
      in (py_round confidence_percentage 1, fired f))"

definition suggestion_for :: "string \<Rightarrow> string list" where
  \<comment> \<open>the \<^verbatim>\<open>if\<close>/\<^verbatim>\<open>elif\<close> chain of \<^verbatim>\<open>suggest_improvements\<close> for one flag\<close>
  "suggestion_for flag =
     (if flag = ''suspiciously_low''
      then [''Review material and labor costs - prices seem unusually low'']
      else if flag = ''suspiciously_high''
      then [''Review pricing calculations - prices seem unusually high'']
      else if flag = ''unusually_small''
      then [''Verify bathroom size - very small bathrooms may need special considerations'']
      else if flag = ''unusually_large''
      then [''Verify bathroom size - very large bathrooms may need different pricing model'']
      else if flag = ''missing_essential_tasks''
      then [''Consider adding essential renovation tasks for complete bathroom renovation'']
      else if flag = ''single_task_project''
      then [''Single task projects may need different pricing approach'']
      else if flag = ''many_tasks''
      then [''Many tasks detected - verify all are necessary for this project'']
      else [])"

definition suggest_improvements :: "string list \<Rightarrow> string list" where
  "suggest_improvements flags = concat (map suggestion_for flags)"

section \<open>SmartPricingEngine: the requirement extractor (pricing\_engine.py)\<close>

definition city_multipliers :: "(string \<times> real) list" where
  "city_multipliers =
     [(''marseille'', 1.0), (''paris'', 1.3), (''nice'', 1.25), (''lyon'', 1.15),
      (''toulouse'', 1.1), (''nantes'', 1.05), (''strasbourg'', 1.1), (''montpellier'', 1.05)]"

definition extract_location :: "pystr \<Rightarrow> string" where
  "extract_location transcript =
     (let cities = map fst city_multipliers
      in case find (\<lambda>city. contains (str city) transcript) cities of
           Some city \<Rightarrow> city
         | None \<Rightarrow> ''marseille'')"

definition task_keywords :: "(string \<times> string list) list" where
  "task_keywords =
     [(''tiles'', [''tiles'', ''tile'', ''ceramic'', ''porcelain'']),
      (''plumbing'', [''plumbing'', ''shower'', ''bath'', ''sink'', ''toilet'']),
      (''painting'', [''paint'', ''repaint'', ''wall'']),
      (''flooring'', [''floor'', ''flooring'', ''laying'']),
      (''vanity'', [''vanity'', ''cabinet'', ''storage'']),
      (''electrical'', [''electrical'', ''lighting'', ''outlet'', ''switch''])]"

definition canonical_tasks :: "string list" where
  \<comment> \<open>the task types in the order in which the program enumerates them\<close>
  "canonical_tasks = [''tiles'', ''plumbing'', ''painting'', ''flooring'', ''vanity'', ''electrical'']"

definition extract_tasks :: "pystr \<Rightarrow> string list" where
  "extract_tasks transcript =
     map fst (filter (\<lambda>(task_type, keywords).
                         list_ex (\<lambda>keyword. contains (str keyword) transcript) keywords)
                     task_keywords)"

definition parse_transcript :: "unicode \<Rightarrow> pystr \<Rightarrow> error + requirements" where
  \<comment> \<open>nothing in the inner \<^verbatim>\<open>try\<close> block raises, and the log lines are not modelled\<close>
  "parse_transcript U transcript =
     (if transcript = [] then Inl (ValueError ''Transcript must be a non-empty string'')
      else if length (strip U transcript) < 10
      then Inl (ValueError ''Transcript too short - please provide more details'')
      else
        let transcript_lower = strip U (lower U transcript);
            size_match = search_size U transcript_lower;
            bathroom_size = (case size_match of Some g \<Rightarrow> to_float U g | None \<Rightarrow> 4.0);
            location = extract_location transcript_lower;
            detected = extract_tasks transcript_lower;
            tasks = (if detected = [] then [''painting''] else detected);
            budget_conscious =
              list_ex (\<lambda>word. contains (str word) transcript_lower)
                [''budget'', ''cheap'', ''affordable'', ''economy'']
        in Inr \<lparr>rq_bathroom_size = Some bathroom_size,
                 rq_location = Some location,
                 rq_tasks = Some tasks,
                 rq_budget_conscious = Some budget_conscious,
                 rq_original_transcript = Some transcript\<rparr>)"

section \<open>SmartPricingEngine: the quote composer (pricing\_engine.py)\<close>

definition message :: "error \<Rightarrow> string" where
  \<comment> \<open>\<^verbatim>\<open>str(e)\<close>\<close>
  "message e =
     (case e of
        ValueError m \<Rightarrow> m
      | RuntimeError m \<Rightarrow> m
      | KeyError k \<Rightarrow> [CHR 0x27] @ k @ [CHR 0x27]
      | TypeError \<Rightarrow> ''type complex doesn'' @ [CHR 0x27] @ ''t define __round__ method'')"

definition required :: "'a option \<Rightarrow> string \<Rightarrow> error + 'a" where
  \<comment> \<open>\<^verbatim>\<open>d[key]\<close> on a dict whose keys are optional fields\<close>
  "required field key = (case field of None \<Rightarrow> Inl (KeyError key) | Some v \<Rightarrow> Inr v)"

definition calculate_task_price :: "string \<Rightarrow> requirements \<Rightarrow> task_price" where
  "calculate_task_price task reqs =
     (case
        then_do (required (rq_bathroom_size reqs) ''bathroom_size'') (\<lambda>bathroom_size.
        then_do (get_task_materials_cost task bathroom_size ''standard'') (\<lambda>material_cost.
        then_do (calculate_labor_cost task bathroom_size ''standard'') (\<lambda>labor_cost.
        then_do (required (rq_location reqs) ''location'') (\<lambda>location.
        then_do (subscript city_multipliers location location) (\<lambda>city_multiplier.
          let adjusted_material_cost = material_cost * city_multiplier;
              adjusted_labor_cost = labor_cost * city_multiplier
          in Inr \<lparr>tp_task = Some task,
                   tp_task_type = None,
                   tp_materials = Some adjusted_material_cost,
                   tp_labor = Some adjusted_labor_cost,
                   tp_total = Some (adjusted_material_cost + adjusted_labor_cost),
                   tp_city_multiplier = Some city_multiplier,
                   tp_error = None\<rparr>)))))
      of
        Inr line \<Rightarrow> line
      | Inl e \<Rightarrow>
          \<lparr>tp_task = Some task,
           tp_task_type = None,
           tp_materials = Some 100.0,
           tp_labor = Some 200.0,
           tp_total = Some 300.0,
           tp_city_multiplier = Some 1.0,
           tp_error = Some (message e)\<rparr>)"

definition apply_margin_protection :: "real \<Rightarrow> bool \<Rightarrow> real" where
  "apply_margin_protection base_price budget_conscious =
     (let margin = (if budget_conscious then 0.15 else 0.25)
      in base_price * (1 + margin))"

definition calculate_margin_percentage :: "real \<Rightarrow> real \<Rightarrow> real" where
  "calculate_margin_percentage subtotal final_price =
     (if subtotal > 0 then ((final_price - subtotal) / subtotal) * 100 else 0.0)"

definition calculate_total_duration :: "task_price list \<Rightarrow> requirements \<Rightarrow> error + real" where
  "calculate_total_duration task_prices reqs =
     foldl (\<lambda>acc line.
        then_do acc (\<lambda>total.
        then_do (required (tp_task line) ''task'') (\<lambda>task.
        then_do (required (rq_bathroom_size reqs) ''bathroom_size'') (\<lambda>bathroom_size.
        then_do (get_task_duration task bathroom_size ''standard'') (\<lambda>duration.
          Inr (total + duration))))))
       (Inr 0) task_prices"

text \<open>
  The three readings of the clock in \<^verbatim>\<open>generate_quote\<close> are an argument: the
  \<^verbatim>\<open>strftime\<close> digits of the identifier and the two ISO stamps.
\<close>

record clock =
  stamp_id :: string
  stamp_generated :: string
  stamp_updated :: string

record quote =
  q_quote_id :: string
  q_generated_at :: string
  q_client_requirements :: requirements
  q_tasks :: "task_price list"
  q_labor_total :: real
  q_materials_total :: real
  q_vat_amount :: real
  q_subtotal :: real
  q_final_price :: real
  q_confidence_score :: real
  q_margin_percentage :: real
  q_city_multiplier :: real
  q_total_duration :: real
  q_estimated_duration :: real
  q_version :: string
  q_generated_by :: string
  q_algorithm_version :: string
  q_last_updated :: string

record priced =
  pr_task_prices :: "task_price list"
  pr_total_labor :: real
  pr_total_materials :: real

definition price_tasks :: "requirements \<Rightarrow> error + priced" where
  \<comment> \<open>the \<^verbatim>\<open>for task in requirements['tasks']\<close> loop of \<^verbatim>\<open>generate_quote\<close>\<close>
  "price_tasks reqs =
     then_do (required (rq_tasks reqs) ''tasks'') (\<lambda>tasks.
       foldl (\<lambda>acc task.
          then_do acc (\<lambda>p.
            let line = calculate_task_price task reqs
            in then_do (required (tp_labor line) ''labor'') (\<lambda>labor.
               then_do (required (tp_materials line) ''materials'') (\<lambda>mats.
                 Inr \<lparr>pr_task_prices = pr_task_prices p @ [line],
                      pr_total_labor = pr_total_labor p + labor,
                      pr_total_materials = pr_total_materials p + mats\<rparr>))))
         (Inr \<lparr>pr_task_prices = [], pr_total_labor = 0, pr_total_materials = 0\<rparr>) tasks)"

definition failed :: "error \<Rightarrow> error + 'a" where
  \<comment> \<open>the handler of \<^verbatim>\<open>generate_quote\<close>: every exception leaves as a RuntimeError\<close>
  "failed e = Inl (RuntimeError (''Failed to generate quote: '' @ message e))"

definition generate_quote ::
    "unicode \<Rightarrow> clock \<Rightarrow> string list \<Rightarrow> pystr \<Rightarrow> (error + quote) \<times> string list" where
  \<comment> \<open>the third argument and the second result are the flags of the engine's scorer\<close>
  "generate_quote U now flags transcript =
     (case parse_transcript U transcript of
        Inl e \<Rightarrow> (failed e, flags)
      | Inr reqs \<Rightarrow>
     (case price_tasks reqs of
        Inl e \<Rightarrow> (failed e, flags)
      | Inr p \<Rightarrow>
     (let task_prices = pr_task_prices p;
          total_labor = pr_total_labor p;
          total_materials = pr_total_materials p
      in
     (case calculate_total_vat task_prices 0.0 10 of
        Inl e \<Rightarrow> (failed e, flags)
      | Inr vat \<Rightarrow>
     (let subtotal = total_labor + total_materials;
          total_with_vat = subtotal + vat
      in
     (case required (rq_budget_conscious reqs) ''budget_conscious'' of
        Inl e \<Rightarrow> (failed e, flags)
      | Inr budget_conscious \<Rightarrow>
     (let final_price = apply_margin_protection total_with_vat budget_conscious;
          (confidence_score, flags') = calculate_confidence reqs task_prices final_price flags
      in
     (case
        then_do (required (rq_location reqs) ''location'') (\<lambda>location.
        then_do (subscript city_multipliers location location) (\<lambda>city_multiplier.
        then_do (calculate_total_duration task_prices reqs) (\<lambda>total_duration.
        then_do (calculate_total_duration task_prices reqs) (\<lambda>estimated_duration.
          Inr \<lparr>q_quote_id = ''DQ'' @ stamp_id now,
               q_generated_at = stamp_generated now,
               q_client_requirements = reqs,
               q_tasks = task_prices,
               q_labor_total = total_labor,
               q_materials_total = total_materials,
               q_vat_amount = vat,
               q_subtotal = subtotal,
               q_final_price = final_price,
               q_confidence_score = confidence_score,
               q_margin_percentage = calculate_margin_percentage subtotal final_price,
               q_city_multiplier = city_multiplier,
               q_total_duration = total_duration,
               q_estimated_duration = estimated_duration,
               q_version = ''1.0.0'',
               q_generated_by = ''Donizo Smart Pricing Engine'',
               q_algorithm_version = ''2.1.0'',
               q_last_updated = stamp_updated now\<rparr>))))
      of
        Inl e \<Rightarrow> (failed e, flags')
      | Inr q \<Rightarrow> (Inr q, flags')))))))))"

section \<open>Sample inputs and flag groups\<close>

definition sample_line :: task_price where
  "sample_line =
     \<lparr>tp_task = Some ''vanity'', tp_task_type = None, tp_materials = Some 220,
      tp_labor = Some 210, tp_total = Some 430, tp_city_multiplier = Some 1, tp_error = None\<rparr>"

definition sample_requirements :: "real \<Rightarrow> string list \<Rightarrow> requirements" where
  "sample_requirements bathroom_size tasks =
     \<lparr>rq_bathroom_size = Some bathroom_size, rq_location = Some ''marseille'',
      rq_tasks = Some tasks, rq_budget_conscious = Some False,
      rq_original_transcript = Some []\<rparr>"

text \<open>
  The six flags that \<open>suggest_improvements\<close> answers, each with its suggestion, in the
  order of the branches; and the plain flags it has no branch for.
\<close>

definition handled_suggestions :: "(string \<times> string) list" where
  "handled_suggestions =
     [(''suspiciously_low'', ''Review material and labor costs - prices seem unusually low''),
      (''suspiciously_high'', ''Review pricing calculations - prices seem unusually high''),
      (''unusually_small'',
       ''Verify bathroom size - very small bathrooms may need special considerations''),
      (''unusually_large'',
       ''Verify bathroom size - very large bathrooms may need different pricing model''),
      (''single_task_project'', ''Single task projects may need different pricing approach''),
      (''many_tasks'', ''Many tasks detected - verify all are necessary for this project'')]"

definition silent_flags :: "string list" where
  "silent_flags = [''below_average'', ''above_average'', ''no_tasks_detected'']"

section \<open>Notions used in the statements\<close>

text \<open>
  The labour and material amounts of a price line as \<^verbatim>\<open>.get(key, 0.0)\<close> reads them, the
  VAT of a line at the standard rate, and the amounts that are whole cents.
\<close>

definition line_labor :: "task_price \<Rightarrow> real" where
  "line_labor line = get_or (tp_labor line) 0"

definition line_materials :: "task_price \<Rightarrow> real" where
  "line_materials line = get_or (tp_materials line) 0"

definition line_vat :: "task_price \<Rightarrow> real" where
  "line_vat line = py_round (0.20 * line_materials line) 2 + py_round (0.20 * line_labor line) 2"

definition cents :: "real \<Rightarrow> bool" where
  "cents x = (\<exists>k :: int. x = of_int k / 10 ^ 2)"

text \<open>The hours of a task at the standard complexity (0 where the duration raises).\<close>

definition task_hours :: "real \<Rightarrow> string \<Rightarrow> real" where
  "task_hours sz task = (case get_task_duration task sz ''standard'' of Inr d \<Rightarrow> d | Inl e \<Rightarrow> 0)"

text \<open>
  Two transcripts, with what the engine makes of them at a fixed clock: the scenario of
  the specification, and a budget request in which only the word "bathroom" names a task.
\<close>

definition sample_clock :: clock where
  "sample_clock =
     \<lparr>stamp_id = ''20240115103000'', stamp_generated = ''2024-01-15T10:30:00'',
      stamp_updated = ''2024-01-15T10:30:00''\<rparr>"

definition scenario_transcript :: pystr where
  "scenario_transcript =
     str ''4m'' @ [178] @ str '' bathroom renovation with tiles and plumbing in Marseille''"

definition scenario_requirements :: requirements where
  "scenario_requirements =
     \<lparr>rq_bathroom_size = Some 4, rq_location = Some ''marseille'',
      rq_tasks = Some [''tiles'', ''plumbing''], rq_budget_conscious = Some False,
      rq_original_transcript = Some scenario_transcript\<rparr>"

definition scenario_lines :: "task_price list" where
  "scenario_lines =
     [\<lparr>tp_task = Some ''tiles'', tp_task_type = None, tp_materials = Some 820.8,
       tp_labor = Some 2317.5, tp_total = Some 3138.3, tp_city_multiplier = Some 1,
       tp_error = None\<rparr>,
      \<lparr>tp_task = Some ''plumbing'', tp_task_type = None, tp_materials = Some 747.75,
       tp_labor = Some 990, tp_total = Some 1737.75, tp_city_multiplier = Some 1,
       tp_error = None\<rparr>]"

definition scenario_quote :: quote where
  "scenario_quote =
     \<lparr>q_quote_id = ''DQ20240115103000'',
      q_generated_at = ''2024-01-15T10:30:00'',
      q_client_requirements = scenario_requirements,
      q_tasks = scenario_lines,
      q_labor_total = 3307.5,
      q_materials_total = 1568.55,
      q_vat_amount = 975.21,
      q_subtotal = 4876.05,
      q_final_price = 7314.075,
      q_confidence_score = 78.4,
      q_margin_percentage = 50,
      q_city_multiplier = 1,
      q_total_duration = 69.5,
      q_estimated_duration = 69.5,
      q_version = ''1.0.0'',
      q_generated_by = ''Donizo Smart Pricing Engine'',
      q_algorithm_version = ''2.1.0'',
      q_last_updated = ''2024-01-15T10:30:00''\<rparr>"

definition budget_transcript :: pystr where
  "budget_transcript = str ''Budget 4m'' @ [178] @ str '' bathroom renovation in Marseille''"

definition budget_requirements :: requirements where
  "budget_requirements =
     \<lparr>rq_bathroom_size = Some 4, rq_location = Some ''marseille'',
      rq_tasks = Some [''plumbing''], rq_budget_conscious = Some True,
      rq_original_transcript = Some budget_transcript\<rparr>"

definition budget_lines :: "task_price list" where
  "budget_lines =
     [\<lparr>tp_task = Some ''plumbing'', tp_task_type = None, tp_materials = Some 747.75,
       tp_labor = Some 990, tp_total = Some 1737.75, tp_city_multiplier = Some 1,
       tp_error = None\<rparr>]"

definition budget_quote :: quote where
  "budget_quote =
     \<lparr>q_quote_id = ''DQ20240115103000'',
      q_generated_at = ''2024-01-15T10:30:00'',
      q_client_requirements = budget_requirements,
      q_tasks = budget_lines,
      q_labor_total = 990,
      q_materials_total = 747.75,
      q_vat_amount = 347.55,
      q_subtotal = 1737.75,
      q_final_price = 2398.095,
      q_confidence_score = 76.1,
      q_margin_percentage = 38,
      q_city_multiplier = 1,
      q_total_duration = 18,
      q_estimated_duration = 18,
      q_version = ''1.0.0'',
      q_generated_by = ''Donizo Smart Pricing Engine'',
      q_algorithm_version = ''2.1.0'',
      q_last_updated = ''2024-01-15T10:30:00''\<rparr>"

section \<open>Properties\<close>

lemma round_half_even_of_int [simp]: "round_half_even (of_int k) = k"
  by (simp add: round_half_even_def)

lemma round_half_even_mono:
  assumes "x \<le> y"
  shows "round_half_even x \<le> round_half_even y"
proof -
  have fl: "\<lfloor>x\<rfloor> \<le> \<lfloor>y\<rfloor>" using assms by (rule floor_mono)
  show ?thesis
  proof (cases "\<lfloor>x\<rfloor> = \<lfloor>y\<rfloor>")
    case True
    then have "x - of_int \<lfloor>x\<rfloor> \<le> y - of_int \<lfloor>y\<rfloor>" using assms by simp
    with True show ?thesis by (auto simp: round_half_even_def Let_def)
  next
    case False
    with fl have "\<lfloor>x\<rfloor> + 1 \<le> \<lfloor>y\<rfloor>" by simp
    moreover have "round_half_even x \<le> \<lfloor>x\<rfloor> + 1" by (simp add: round_half_even_def Let_def)
    moreover have "\<lfloor>y\<rfloor> \<le> round_half_even y" by (simp add: round_half_even_def Let_def)
    ultimately show ?thesis by linarith
  qed
qed

lemma py_round_mono: "x \<le> y \<Longrightarrow> py_round x n \<le> py_round y n"
  by (simp add: py_round_def round_half_even_mono divide_right_mono)

lemma py_round_of_int_div: "py_round (of_int k / 10 ^ n) n = of_int k / 10 ^ n"
  by (simp add: py_round_def)

text \<open>
  C3. For a task whose VAT class is \<open>reduced\<close>, the rate is the reduced rate (0.10)
  exactly when the work value lies in [1000, 50000] and the property is at least 2 years
  old, and the standard rate (0.20) otherwise; a task that is not in the classification
  table gets the standard rate.
\<close>

theorem get_vat_rate_reduced_class:
  "(map_of task_vat_classification task = Some ''reduced'' \<longrightarrow>
      get_vat_rate task work_value age =
        Inr (if 1000 \<le> work_value \<and> work_value \<le> 50000 \<and> 2 \<le> age then 0.10 else 0.20)) \<and>
   (map_of task_vat_classification task = None \<longrightarrow> get_vat_rate task work_value age = Inr 0.20)"
  by (simp add: get_vat_rate_def is_eligible_for_reduced_vat_def subscript_def then_do_def
      vat_rates_def vat_conditions_def)

theorem get_vat_rate_reduced_class_witness:
  "map_of task_vat_classification ''tiles'' = Some ''reduced'' \<and>
   get_vat_rate ''tiles'' 1000 2 = Inr 0.10 \<and>
   get_vat_rate ''tiles'' 999.99 10 = Inr 0.20 \<and>
   get_vat_rate ''tiles'' 50000.01 10 = Inr 0.20 \<and>
   get_vat_rate ''tiles'' 2500 1 = Inr 0.20 \<and>
   map_of task_vat_classification '''' = None \<and>
   get_vat_rate '''' 2500 10 = Inr 0.20"
  using get_vat_rate_reduced_class [of "''tiles''" 1000 2]
    get_vat_rate_reduced_class [of "''tiles''" "999.99" 10]
    get_vat_rate_reduced_class [of "''tiles''" "50000.01" 10]
    get_vat_rate_reduced_class [of "''tiles''" 2500 1]
    get_vat_rate_reduced_class [of "''''" 2500 10]
  by (simp add: task_vat_classification_def)

subsection \<open>The requirement extractor\<close>

lemma length_strip_le: "length (strip U s) \<le> length s"
proof -
  have "length (strip U s) \<le> length (dropWhile (isspace U) s)"
    unfolding strip_def by (metis length_dropWhile_le length_rev)
  also have "\<dots> \<le> length s" by (rule length_dropWhile_le)
  finally show ?thesis .
qed

text \<open>
  C6. A transcript that is empty or shorter than 10 characters is rejected by the
  extractor with a ValueError, and \<open>generate_quote\<close> then produces no quote: it ends
  with an error and the scorer has not been touched (its flags are unchanged), so no
  pricing step ran.
\<close>

theorem short_transcript_rejected:
  assumes "transcript = [] \<or> length transcript < 10"
  shows "(\<exists>m. parse_transcript U transcript = Inl (ValueError m)) \<and>
         (\<exists>m. generate_quote U now flags transcript = (Inl (RuntimeError m), flags))"
proof -
  have short: "transcript \<noteq> [] \<Longrightarrow> length (strip U transcript) < 10"
    using assms length_strip_le [of U transcript] by auto
  then have p: "\<exists>m. parse_transcript U transcript = Inl (ValueError m)"
    by (cases "transcript = []") (simp_all add: parse_transcript_def)
  then obtain m where "parse_transcript U transcript = Inl (ValueError m)" ..
  then have "generate_quote U now flags transcript =
      (Inl (RuntimeError (''Failed to generate quote: '' @ m)), flags)"
    by (simp add: generate_quote_def failed_def message_def)
  with p show ?thesis by blast
qed

theorem short_transcript_rejected_witness:
  "length (str ''4m2 tiles'') < 10 \<and>
   parse_transcript ascii (str ''4m2 tiles'') =
     Inl (ValueError ''Transcript too short - please provide more details'') \<and>
   generate_quote ascii \<lparr>stamp_id = ''20240101120000'', stamp_generated = ''2024-01-01T12:00:00'',
       stamp_updated = ''2024-01-01T12:00:00''\<rparr> [''unusually_small''] (str ''4m2 tiles'') =
     (Inl (RuntimeError ''Failed to generate quote: Transcript too short - please provide more details''),
      [''unusually_small''])"
proof -
  have p: "parse_transcript ascii (str ''4m2 tiles'') =
     Inl (ValueError ''Transcript too short - please provide more details'')"
    by (simp add: parse_transcript_def str_def strip_def ascii_def)
  show ?thesis
    using short_transcript_rejected [of "str ''4m2 tiles''" ascii
       "\<lparr>stamp_id = ''20240101120000'', stamp_generated = ''2024-01-01T12:00:00'',
       stamp_updated = ''2024-01-01T12:00:00''\<rparr>" "[''unusually_small'']"] p
    by (simp add: generate_quote_def failed_def message_def str_def)
qed

lemma extract_tasks_subseq: "subseq (extract_tasks s) canonical_tasks"
proof -
  have "subseq (extract_tasks s) (map fst task_keywords)"
    unfolding extract_tasks_def by (intro subseq_map subseq_filter_left)
  then show ?thesis by (simp add: task_keywords_def canonical_tasks_def)
qed

lemma extract_tasks_distinct: "distinct (extract_tasks s)"
  unfolding extract_tasks_def
  by (rule distinct_map_filter) (simp add: task_keywords_def)

text \<open>
  C10. The task list of an extracted requirement is never empty and follows the
  canonical order tiles, plumbing, painting, flooring, vanity, electrical, whatever the
  order of the keywords in the text; when no keyword matches it is the single default
  task (painting).
\<close>

theorem parsed_tasks_canonical:
  assumes "parse_transcript U transcript = Inr reqs"
  shows "\<exists>tasks. rq_tasks reqs = Some tasks \<and> tasks \<noteq> [] \<and> distinct tasks \<and>
           subseq tasks canonical_tasks \<and>
           tasks = (if extract_tasks (strip U (lower U transcript)) = [] then [''painting'']
                    else extract_tasks (strip U (lower U transcript)))"
proof -
  let ?d = "extract_tasks (strip U (lower U transcript))"
  let ?ts = "if ?d = [] then [''painting''] else ?d"
  have r: "rq_tasks reqs = Some ?ts"
    using assms by (auto simp: parse_transcript_def Let_def split: if_splits)
  have ne: "?ts \<noteq> []" by simp
  have sub: "subseq ?ts canonical_tasks"
    using extract_tasks_subseq [of "strip U (lower U transcript)"]
    by (simp add: canonical_tasks_def)
  have "distinct ?ts" by (simp add: extract_tasks_distinct)
  with r ne sub show ?thesis by blast
qed


lemma repaint_parsed: "parse_transcript ascii (str ''Repaint the walls, then redo the PLUMBING and lay tiles'') =
   Inr \<lparr>rq_bathroom_size = Some 4, rq_location = Some ''marseille'',
        rq_tasks = Some [''tiles'', ''plumbing'', ''painting''],
        rq_budget_conscious = Some False,
        rq_original_transcript = Some (str ''Repaint the walls, then redo the PLUMBING and lay tiles'')\<rparr>"
  by code_simp
lemma washroom_parsed: "parse_transcript ascii (str ''Complete makeover of the washroom in Lyon'') =
   Inr \<lparr>rq_bathroom_size = Some 4, rq_location = Some ''lyon'',
        rq_tasks = Some [''painting''],
        rq_budget_conscious = Some False,
        rq_original_transcript = Some (str ''Complete makeover of the washroom in Lyon'')\<rparr>"
  by code_simp
lemma washroom_without_keyword: "extract_tasks (strip ascii (lower ascii (str ''Complete makeover of the washroom in Lyon''))) = []"
  by code_simp

theorem parsed_tasks_canonical_witness:
  "parse_transcript ascii (str ''Repaint the walls, then redo the PLUMBING and lay tiles'') =
   Inr \<lparr>rq_bathroom_size = Some 4, rq_location = Some ''marseille'',
        rq_tasks = Some [''tiles'', ''plumbing'', ''painting''],
        rq_budget_conscious = Some False,
        rq_original_transcript = Some (str ''Repaint the walls, then redo the PLUMBING and lay tiles'')\<rparr> \<and>
   subseq [''tiles'', ''plumbing'', ''painting''] canonical_tasks \<and>
   extract_tasks (strip ascii (lower ascii (str ''Complete makeover of the washroom in Lyon''))) = [] \<and>
   parse_transcript ascii (str ''Complete makeover of the washroom in Lyon'') =
   Inr \<lparr>rq_bathroom_size = Some 4, rq_location = Some ''lyon'',
        rq_tasks = Some [''painting''],
        rq_budget_conscious = Some False,
        rq_original_transcript = Some (str ''Complete makeover of the washroom in Lyon'')\<rparr>"
proof -
  from parsed_tasks_canonical [OF repaint_parsed]
  have "subseq [''tiles'', ''plumbing'', ''painting''] canonical_tasks" by auto
  with repaint_parsed washroom_parsed washroom_without_keyword show ?thesis by simp
qed
subsection \<open>The material cost model\<close>

lemmas dict_defs = has_key_def item_def subscript_def then_do_def items_def num_item_def
  number_def num_get_def get_default_def required_def get_or_def

lemmas material_defs = get_task_materials_cost_def materials_def load_default_materials_def
  calculate_tiles_cost_def calculate_plumbing_cost_def calculate_painting_cost_def
  calculate_flooring_cost_def calculate_vanity_cost_def calculate_electrical_cost_def
  outlets_for_def wall_area_def

lemmas round_defs = py_round_def round_half_even_def

lemma plumbing_cost_value:
  "get_task_materials_cost ''plumbing'' bathroom_size quality = Inr (py_round (2991 / 4) 2)"
  by (simp add: material_defs dict_defs)

text \<open>
  C4. The plumbing material cost is not the rounded sum over shower, toilet and sink. At
  size 4 the code returns 747.75 where the three fixtures make 362.75: the loop of
  \<open>calculate_plumbing_cost\<close> runs over every fixture of the table, and the difference is
  the bath (350 * 1.1 = 385). The labour model leaves the bath out: the plumbing
  duration is 8 + 4 + 3 hours for shower, toilet and sink, and 1 + 2 for setup and
  testing.
\<close>

theorem plumbing_cost_bills_the_bath:
  "get_task_materials_cost ''plumbing'' 4 ''standard'' = Inr 747.75 \<and>
   py_round (180.0 * 0.9 + 120.0 * 1.0 + 85.0 * 0.95) 2 = 362.75 \<and>
   (747.75 :: real) - 362.75 = 350.0 * 1.1 \<and>
   get_task_duration ''plumbing'' 4 ''standard'' = Inr (8 + 4 + 3 + 1 + 2)"
  by (simp add: plumbing_cost_value round_defs get_task_duration_def base_time_estimates_def
      calculate_plumbing_duration_def get_complexity_multiplier_def dict_defs)

text \<open>
  C5. Monotonicity in the quality tier fails at the tier \<open>luxury\<close>: only the tiles table
  has a multiplier for it, and painting, flooring and vanity fall back to 1.0, below
  their premium multiplier. The costs at size 4:
\<close>

theorem luxury_below_premium:
  "get_task_materials_cost ''vanity'' 4 ''luxury'' = Inr 220 \<and>
   get_task_materials_cost ''vanity'' 4 ''premium'' = Inr 352 \<and>
   get_task_materials_cost ''flooring'' 4 ''luxury'' = Inr 125.44 \<and>
   get_task_materials_cost ''flooring'' 4 ''premium'' = Inr 188.16 \<and>
   get_task_materials_cost ''painting'' 4 ''luxury'' = Inr 342.72 \<and>
   get_task_materials_cost ''painting'' 4 ''premium'' = Inr 445.54 \<and>
   get_task_materials_cost ''tiles'' 4 ''luxury'' = Inr 1641.6 \<and>
   get_task_materials_cost ''tiles'' 4 ''premium'' = Inr 1149.12"
  by (simp add: material_defs dict_defs round_defs)


subsection \<open>The confidence scorer\<close>

lemmas scorer_tables = bathroom_size_factors_def task_complexity_def location_confidence_def
  price_thresholds_def historical_pricing_def

lemma price_confidence_value:
  "fst (calculate_price_confidence task_prices final_price flags) =
     (if task_prices = [] then 0.5
      else let ratio = (final_price / 4.0) / 542
           in if ratio \<le> 0.5 then 0.6 else if ratio \<le> 0.8 then 0.8
              else if ratio \<le> 1.0 then 1.0 else if ratio \<le> 1.3 then 0.9 else 0.7)"
  by (simp add: calculate_price_confidence_def scorer_tables Let_def)

lemma score_factors_price:
  "price_confidence (score_factors reqs task_prices final_price) =
     fst (calculate_price_confidence task_prices final_price
            (snd (calculate_task_confidence (get_or (rq_tasks reqs) [])
               (snd (calculate_size_confidence (get_or (rq_bathroom_size reqs) 4.0) [])))))"
  by (simp add: score_factors_def Let_def split: prod.split)

text \<open>
  C7, amended. The price sub-score of a scoring call is the same whatever the
  requirements (so whatever the bathroom size). With a non-empty list of task prices it
  is the bucket score of (final price / 4.0) divided by the sum of the historical
  averages (542): 0.6 up to 0.5, 0.8 up to 0.8, 1.0 up to 1.0, 0.9 up to 1.3 and 0.7
  above. With an empty list it is 0.5.
\<close>

theorem price_sub_score_ignores_size:
  "price_confidence (score_factors reqs task_prices final_price) =
     price_confidence (score_factors reqs' task_prices final_price) \<and>
   (task_prices \<noteq> [] \<longrightarrow>
      price_confidence (score_factors reqs task_prices final_price) =
        (let ratio = (final_price / 4.0) / (50 + 160 + 9 + 35 + 240 + 48)
         in if ratio \<le> 0.5 then 0.6 else if ratio \<le> 0.8 then 0.8
            else if ratio \<le> 1.0 then 1.0 else if ratio \<le> 1.3 then 0.9 else 0.7)) \<and>
   (task_prices = [] \<longrightarrow> price_confidence (score_factors reqs task_prices final_price) = 0.5)"
  by (simp add: score_factors_price price_confidence_value)


text \<open>
  C7, as stated, fails when the list of task prices is empty: the call
  \<^verbatim>\<open>calculate_confidence({}, [], 0)\<close>, which \<^verbatim>\<open>get_confidence_report\<close> makes, has the
  price sub-score 0.5, and the bucket score of 0 / 4.0 over the historical sum is 0.6.
\<close>

theorem price_sub_score_ignores_size_counterexample:
  "price_confidence (score_factors
      \<lparr>rq_bathroom_size = None, rq_location = None, rq_tasks = None,
       rq_budget_conscious = None, rq_original_transcript = None\<rparr> [] 0) = 0.5 \<and>
   (case find (\<lambda>(category, data). (0 / 4.0) / (50 + 160 + 9 + 35 + 240 + 48) \<le> pt_multiplier data)
           price_thresholds of
      Some (category, data) \<Rightarrow> pt_score data
    | None \<Rightarrow> 0.7) = (0.6 :: real)"
  by (simp add: score_factors_price price_confidence_value price_thresholds_def)

theorem price_sub_score_ignores_size_witness:
  "price_confidence (score_factors (sample_requirements 4 [''vanity'']) [sample_line] 2000) = 1.0 \<and>
   price_confidence (score_factors (sample_requirements 40 [''vanity'']) [sample_line] 2000) = 1.0 \<and>
   price_confidence (score_factors (sample_requirements 40 [''vanity'']) [] 2000) = 0.5"
  using price_sub_score_ignores_size
      [of "sample_requirements 4 [''vanity'']" "[sample_line]" 2000 "sample_requirements 40 [''vanity'']"]
    price_sub_score_ignores_size
      [of "sample_requirements 40 [''vanity'']" "[]" 2000 "sample_requirements 40 [''vanity'']"]
  by simp

lemma size_confidence_bounds:
  "0 \<le> fst (calculate_size_confidence x flags) \<and> fst (calculate_size_confidence x flags) \<le> 1"
  by (simp add: calculate_size_confidence_def bathroom_size_factors_def in_range_def)

lemma location_confidence_bounds:
  "0 \<le> calculate_location_confidence location \<and> calculate_location_confidence location \<le> 1"
  by (simp add: calculate_location_confidence_def location_confidence_def get_default_def)

lemma task_confidence_bounds:
  "0 \<le> fst (calculate_task_confidence tasks flags) \<and> fst (calculate_task_confidence tasks flags) \<le> 1"
  by (simp add: calculate_task_confidence_def Let_def)

lemma price_confidence_bounds:
  "0 \<le> fst (calculate_price_confidence task_prices final_price flags) \<and>
   fst (calculate_price_confidence task_prices final_price flags) \<le> 1"
  by (simp add: price_confidence_value Let_def)

lemma sum_list_unit_bounds:
  fixes xs :: "real list"
  assumes "\<forall>x \<in> set xs. 0 \<le> x \<and> x \<le> 1"
  shows "0 \<le> sum_list xs \<and> sum_list xs \<le> real (length xs)"
  using assms by (induction xs) auto

lemma complexity_confidence_bounds:
  "0 \<le> calculate_complexity_confidence tasks \<and> calculate_complexity_confidence tasks \<le> 1"
proof (cases "tasks = []")
  case True
  then show ?thesis by (simp add: calculate_complexity_confidence_def)
next
  case False
  let ?g = "\<lambda>task. if task \<in> set (get_default task_complexity ''simple'' []) then 0.9
                     else if task \<in> set (get_default task_complexity ''moderate'' []) then 0.95
                     else if task \<in> set (get_default task_complexity ''complex'' []) then 0.85
                     else (0.8 :: real)"
  have "\<forall>x \<in> set (map ?g tasks). 0 \<le> x \<and> x \<le> 1" by auto
  from sum_list_unit_bounds [OF this]
  have b: "0 \<le> sum_list (map ?g tasks)" "sum_list (map ?g tasks) \<le> real (length tasks)" by simp_all
  have pos: "0 < real (length tasks)" using False by simp
  have "calculate_complexity_confidence tasks = sum_list (map ?g tasks) / real (length tasks)"
    using False by (simp add: calculate_complexity_confidence_def Let_def)
  moreover have "0 \<le> sum_list (map ?g tasks) / real (length tasks)" using b pos by simp
  moreover have "sum_list (map ?g tasks) / real (length tasks) \<le> 1" using b pos by simp
  ultimately show ?thesis by simp
qed

lemma score_factors_fields:
  "size_confidence (score_factors r tp fp) =
     fst (calculate_size_confidence (get_or (rq_bathroom_size r) 4) [])"
  "location_conf (score_factors r tp fp) =
     calculate_location_confidence (get_or (rq_location r) ''marseille'')"
  "task_confidence (score_factors r tp fp) =
     fst (calculate_task_confidence (get_or (rq_tasks r) [])
            (snd (calculate_size_confidence (get_or (rq_bathroom_size r) 4) [])))"
  "complexity_confidence (score_factors r tp fp) =
     calculate_complexity_confidence (get_or (rq_tasks r) [])"
  "fired (score_factors r tp fp) =
     snd (calculate_price_confidence tp fp
            (snd (calculate_task_confidence (get_or (rq_tasks r) [])
               (snd (calculate_size_confidence (get_or (rq_bathroom_size r) 4) [])))))"
  by (simp_all add: score_factors_def Let_def split: prod.split)

lemma score_factors_bounds:
  "0 \<le> size_confidence (score_factors r tp fp) \<and> size_confidence (score_factors r tp fp) \<le> 1 \<and>
   0 \<le> location_conf (score_factors r tp fp) \<and> location_conf (score_factors r tp fp) \<le> 1 \<and>
   0 \<le> task_confidence (score_factors r tp fp) \<and> task_confidence (score_factors r tp fp) \<le> 1 \<and>
   0 \<le> price_confidence (score_factors r tp fp) \<and> price_confidence (score_factors r tp fp) \<le> 1 \<and>
   0 \<le> complexity_confidence (score_factors r tp fp) \<and> complexity_confidence (score_factors r tp fp) \<le> 1"
  unfolding score_factors_fields score_factors_price
  using size_confidence_bounds location_confidence_bounds task_confidence_bounds
    price_confidence_bounds complexity_confidence_bounds
  by blast

lemma py_round_int: "py_round (of_int k) n = of_int k"
proof -
  have "(of_int k :: real) * 10 ^ n = of_int (k * 10 ^ n)" by simp
  then have "round_half_even (of_int k * 10 ^ n) = k * 10 ^ n"
    by (simp only: round_half_even_of_int)
  then show ?thesis by (simp add: py_round_def)
qed

lemma scaled_bound:
  fixes w q :: real
  assumes "0 \<le> w" "w \<le> 1" "0 \<le> q" "q \<le> 1"
  shows "0 \<le> w * 100 * q \<and> w * 100 * q \<le> 100"
proof -
  have a: "w * q \<le> 1" using assms by (simp add: mult_le_one)
  have b: "0 \<le> w * q" using assms by simp
  have "w * 100 * q = 100 * (w * q)" by simp
  with a b show ?thesis by linarith
qed

lemma py_round_nonneg: "0 \<le> x \<Longrightarrow> 0 \<le> py_round x n"
  using py_round_mono [of 0 x n] py_round_int [of 0 n] by simp

text \<open>
  C8. For every requirements record, task-price list and final price, the confidence
  score is the weighted sum of the five sub-scores (weights 0.15, 0.10, 0.20, 0.35,
  0.20) times 100, reduced by min(number of flags * 0.05, 0.20), floored at 0 and
  rounded to 1 decimal, and it lies in [0, 100].
\<close>

theorem confidence_score_in_range:
  "fst (calculate_confidence reqs task_prices final_price old_flags) =
     py_round (max ((0.15 * size_confidence (score_factors reqs task_prices final_price) +
                     0.10 * location_conf (score_factors reqs task_prices final_price) +
                     0.20 * task_confidence (score_factors reqs task_prices final_price) +
                     0.35 * price_confidence (score_factors reqs task_prices final_price) +
                     0.20 * complexity_confidence (score_factors reqs task_prices final_price)) * 100 *
                    (1 - min (real (length (fired (score_factors reqs task_prices final_price))) * 0.05) 0.20))
                   0) 1 \<and>
   snd (calculate_confidence reqs task_prices final_price old_flags) =
     fired (score_factors reqs task_prices final_price) \<and>
   0 \<le> fst (calculate_confidence reqs task_prices final_price old_flags) \<and>
   fst (calculate_confidence reqs task_prices final_price old_flags) \<le> 100"
proof -
  let ?f = "score_factors reqs task_prices final_price"
  let ?w = "0.15 * size_confidence ?f + 0.10 * location_conf ?f + 0.20 * task_confidence ?f +
            0.35 * price_confidence ?f + 0.20 * complexity_confidence ?f"
  let ?p = "min (real (length (fired ?f)) * 0.05) (0.20 :: real)"
  let ?c = "max (?w * 100 * (1 - ?p)) 0"
  have eq: "calculate_confidence reqs task_prices final_price old_flags = (py_round ?c 1, fired ?f)"
    by (simp add: calculate_confidence_def Let_def algebra_simps)
  have w: "0 \<le> ?w" "?w \<le> 1"
    using score_factors_bounds [of reqs task_prices final_price] by auto
  have p: "0 \<le> 1 - ?p" "1 - ?p \<le> 1" by auto
  from scaled_bound [OF w p] have c: "0 \<le> ?c" "?c \<le> 100" by auto
  have "py_round ?c 1 \<le> py_round (of_int 100) 1"
    using c(2) by (intro py_round_mono) simp
  then have hi: "py_round ?c 1 \<le> 100" using py_round_int [of 100 1] by simp
  have lo: "0 \<le> py_round ?c 1" using c(1) by (rule py_round_nonneg)
  show ?thesis using eq hi lo by simp
qed


lemmas scorer_defs = calculate_confidence_def score_factors_def calculate_size_confidence_def
  calculate_location_confidence_def calculate_task_confidence_def calculate_price_confidence_def
  calculate_complexity_confidence_def add_flag_def in_range_def join_def

lemma sample_score:
  "calculate_confidence (sample_requirements 4 [''tiles'', ''plumbing'']) [sample_line] 1500 [''stale''] =
     (81.7, [''below_average''])"
  by (simp add: scorer_defs scorer_tables sample_requirements_def sample_line_def get_or_def
      get_default_def round_defs Let_def)

theorem confidence_score_in_range_witness:
  "calculate_confidence (sample_requirements 4 [''tiles'', ''plumbing'']) [sample_line] 1500 [''stale''] =
     (81.7, [''below_average'']) \<and>
   (0 :: real) \<le> 81.7 \<and> (81.7 :: real) \<le> 100"
  using confidence_score_in_range
    [of "sample_requirements 4 [''tiles'', ''plumbing'']" "[sample_line]" 1500 "[''stale'']"]
  by (simp add: sample_score)

lemma suggest_improvements_Cons:
  "suggest_improvements (flag # flags) = suggest_improvements [flag] @ suggest_improvements flags"
  by (simp add: suggest_improvements_def)

lemma suggest_improvements_append:
  "suggest_improvements (xs @ ys) = suggest_improvements xs @ suggest_improvements ys"
  by (simp add: suggest_improvements_def)

lemma handled_flag_suggestion:
  assumes "map_of handled_suggestions flag = Some suggestion"
  shows "suggest_improvements [flag] = [suggestion]"
  using assms
  by (simp add: handled_suggestions_def suggest_improvements_def suggestion_for_def
      split: if_splits)

lemma silent_flag_suggestion:
  assumes "flag \<in> set silent_flags"
  shows "suggest_improvements [flag] = []"
proof -
  from assms have "flag = ''below_average'' \<or> flag = ''above_average'' \<or> flag = ''no_tasks_detected''"
    by (simp add: silent_flags_def)
  then show ?thesis
    by (elim disjE) (simp_all add: suggest_improvements_def suggestion_for_def)
qed

lemma flag_contribution:
  "(case map_of handled_suggestions flag of
      Some suggestion \<Rightarrow> [suggestion]
    | None \<Rightarrow> if flag \<in> set silent_flags then [] else suggest_improvements [flag]) =
   suggest_improvements [flag]"
proof (cases "map_of handled_suggestions flag")
  case None
  then show ?thesis
    by (cases "flag \<in> set silent_flags") (simp_all add: silent_flag_suggestion)
next
  case (Some suggestion)
  then show ?thesis by (simp add: handled_flag_suggestion)
qed

lemma one_task_flags:
  "snd (calculate_confidence (sample_requirements 4 [''painting'']) [sample_line] 1500 []) =
     [''single_task_project'', ''missing_essential_tasks: plumbing, tiles'', ''below_average'']"
  by (simp add: scorer_defs scorer_tables sample_requirements_def sample_line_def get_or_def
      get_default_def Let_def)

lemma sample_flags:
  "snd (calculate_confidence
          (sample_requirements 1.5 [''tiles'', ''plumbing'', ''painting'', ''flooring'', ''vanity'', ''electrical''])
          [sample_line] 9000 []) =
     [''unusually_small'', ''many_tasks'', ''suspiciously_high'']"
  by (simp add: scorer_defs scorer_tables sample_requirements_def sample_line_def get_or_def
      get_default_def Let_def)

text \<open>
  C9, amended. Each fired flag among suspiciously\_low, suspiciously\_high,
  unusually\_small, unusually\_large, single\_task\_project and many\_tasks yields
  exactly one suggestion, its own, in the subsequent suggestions call, in flag order;
  the flags below\_average, above\_average and no\_tasks\_detected yield none. This holds
  for every flag list, whatever other flags stand between them: the suggestion list is
  the concatenation, in flag order, of what each flag contributes, and a flag outside
  these nine contributes what a call with that flag alone returns.
\<close>

theorem suggestions_follow_flags:
  "suggest_improvements flags =
     concat (map (\<lambda>flag. case map_of handled_suggestions flag of
                             Some suggestion \<Rightarrow> [suggestion]
                           | None \<Rightarrow> if flag \<in> set silent_flags then []
                                     else suggest_improvements [flag]) flags) \<and>
   (\<forall>(flag, suggestion) \<in> set handled_suggestions. suggest_improvements [flag] = [suggestion]) \<and>
   (\<forall>flag \<in> set silent_flags. suggest_improvements [flag] = []) \<and>
   suggest_improvements (flags @ rest) = suggest_improvements flags @ suggest_improvements rest"
proof -
  let ?g = "\<lambda>flag. case map_of handled_suggestions flag of
                      Some suggestion \<Rightarrow> [suggestion]
                    | None \<Rightarrow> if flag \<in> set silent_flags then []
                              else suggest_improvements [flag]"
  have "suggest_improvements flags = concat (map ?g flags)"
  proof (induction flags)
    case Nil
    show ?case by (simp add: suggest_improvements_def)
  next
    case (Cons flag flags)
    have "suggest_improvements (flag # flags) =
        suggest_improvements [flag] @ suggest_improvements flags"
      by (rule suggest_improvements_Cons)
    also have "\<dots> = ?g flag @ concat (map ?g flags)"
      by (simp only: flag_contribution Cons.IH)
    finally show ?case by simp
  qed
  moreover have "\<forall>(flag, suggestion) \<in> set handled_suggestions.
      suggest_improvements [flag] = [suggestion]"
    by (simp add: handled_suggestions_def suggest_improvements_def suggestion_for_def)
  moreover have "\<forall>flag \<in> set silent_flags. suggest_improvements [flag] = []"
    by (simp add: silent_flag_suggestion)
  ultimately show ?thesis
    using suggest_improvements_append [of flags rest] by blast
qed

theorem suggestions_follow_flags_witness:
  "snd (calculate_confidence (sample_requirements 4 [''painting'']) [sample_line] 1500 []) =
     [''single_task_project'', ''missing_essential_tasks: plumbing, tiles'', ''below_average''] \<and>
   suggest_improvements
     [''single_task_project'', ''missing_essential_tasks: plumbing, tiles'', ''below_average''] =
     ''Single task projects may need different pricing approach'' #
     suggest_improvements [''missing_essential_tasks: plumbing, tiles''] \<and>
   snd (calculate_confidence
          (sample_requirements 1.5 [''tiles'', ''plumbing'', ''painting'', ''flooring'', ''vanity'', ''electrical''])
          [sample_line] 9000 []) =
     [''unusually_small'', ''many_tasks'', ''suspiciously_high''] \<and>
   suggest_improvements [''unusually_small'', ''many_tasks'', ''suspiciously_high''] =
     [''Verify bathroom size - very small bathrooms may need special considerations'',
      ''Many tasks detected - verify all are necessary for this project'',
      ''Review pricing calculations - prices seem unusually high'']"
proof -
  have a: "suggest_improvements
     [''single_task_project'', ''missing_essential_tasks: plumbing, tiles'', ''below_average''] =
     ''Single task projects may need different pricing approach'' #
     suggest_improvements [''missing_essential_tasks: plumbing, tiles'']"
    using suggestions_follow_flags
      [of "[''single_task_project'', ''missing_essential_tasks: plumbing, tiles'', ''below_average'']" "[]",
       THEN conjunct1]
    by (simp add: handled_suggestions_def silent_flags_def)
  have b: "suggest_improvements [''unusually_small'', ''many_tasks'', ''suspiciously_high''] =
     [''Verify bathroom size - very small bathrooms may need special considerations'',
      ''Many tasks detected - verify all are necessary for this project'',
      ''Review pricing calculations - prices seem unusually high'']"
    using suggestions_follow_flags
      [of "[''unusually_small'', ''many_tasks'', ''suspiciously_high'']" "[]", THEN conjunct1]
    by (simp add: handled_suggestions_def silent_flags_def)
  from a b one_task_flags sample_flags show ?thesis by simp
qed

text \<open>
  C9, as stated, fails: a scoring call that fires the flag below\_average alone is
  followed by an empty suggestion list.
\<close>

theorem suggestions_one_per_flag_counterexample:
  "snd (calculate_confidence (sample_requirements 4 [''tiles'', ''plumbing'']) [sample_line] 1500 []) =
     [''below_average''] \<and>
   suggest_improvements [''below_average''] = []"
  by (simp add: scorer_defs scorer_tables sample_requirements_def sample_line_def get_or_def
      get_default_def Let_def suggest_improvements_def suggestion_for_def)

text \<open>
  The recorded flag for missing essential tasks carries the list of the missing tasks
  after the name, and \<open>suggest_improvements\<close> compares with the bare name: the flag
  never gets its suggestion.
\<close>

lemma missing_essential_flag_has_no_suggestion:
  "snd (calculate_confidence (sample_requirements 4 [''painting'']) [sample_line] 1500 []) =
     [''single_task_project'', ''missing_essential_tasks: plumbing, tiles'', ''below_average''] \<and>
   suggest_improvements [''missing_essential_tasks: plumbing, tiles''] = []"
  using one_task_flags by (simp add: suggest_improvements_def suggestion_for_def)

subsection \<open>The quote composer\<close>

lemma then_do_Inr: "then_do (Inr v) f = f v"
  by (simp add: then_do_def)

lemma then_do_Inl: "then_do (Inl e) f = Inl e"
  by (simp add: then_do_def)

lemma required_Some: "required (Some v) key = Inr v"
  by (simp add: required_def)

lemma calculate_task_price_fields:
  "tp_task (calculate_task_price task reqs) = Some task"
  "tp_task_type (calculate_task_price task reqs) = None"
  "tp_labor (calculate_task_price task reqs) \<noteq> None"
  "tp_materials (calculate_task_price task reqs) \<noteq> None"
  by (auto simp: calculate_task_price_def then_do_def Let_def split: sum.splits)

lemma price_tasks_loop:
  "foldl (\<lambda>acc task.
          then_do acc (\<lambda>p.
            let line = calculate_task_price task reqs
            in then_do (required (tp_labor line) ''labor'') (\<lambda>labor.
               then_do (required (tp_materials line) ''materials'') (\<lambda>mats.
                 Inr \<lparr>pr_task_prices = pr_task_prices p @ [line],
                      pr_total_labor = pr_total_labor p + labor,
                      pr_total_materials = pr_total_materials p + mats\<rparr>))))
         (Inr p0) tasks =
   Inr \<lparr>pr_task_prices = pr_task_prices p0 @ map (\<lambda>task. calculate_task_price task reqs) tasks,
        pr_total_labor =
          pr_total_labor p0 + sum_list (map (\<lambda>task. line_labor (calculate_task_price task reqs)) tasks),
        pr_total_materials =
          pr_total_materials p0 +
          sum_list (map (\<lambda>task. line_materials (calculate_task_price task reqs)) tasks)\<rparr>"
proof (induction tasks arbitrary: p0)
  case Nil
  then show ?case by simp
next
  case (Cons task tasks)
  obtain l where l: "tp_labor (calculate_task_price task reqs) = Some l"
    using calculate_task_price_fields(3) [of task reqs] by auto
  obtain m where m: "tp_materials (calculate_task_price task reqs) = Some m"
    using calculate_task_price_fields(4) [of task reqs] by auto
  show ?case
    using Cons.IH l m
    by (simp add: then_do_def required_def Let_def line_labor_def line_materials_def
        get_or_def add.assoc)
qed

lemma price_tasks_value:
  assumes "rq_tasks reqs = Some tasks"
  shows "price_tasks reqs =
     Inr \<lparr>pr_task_prices = map (\<lambda>task. calculate_task_price task reqs) tasks,
          pr_total_labor = sum_list (map (\<lambda>task. line_labor (calculate_task_price task reqs)) tasks),
          pr_total_materials =
            sum_list (map (\<lambda>task. line_materials (calculate_task_price task reqs)) tasks)\<rparr>"
  unfolding price_tasks_def using assms
  by (simp add: required_Some then_do_Inr price_tasks_loop)

lemma get_vat_rate_no_work_value: "get_vat_rate task 0 age = Inr 0.20"
  by (simp add: get_vat_rate_def is_eligible_for_reduced_vat_def subscript_def then_do_def
      vat_rates_def vat_conditions_def task_vat_classification_def)

lemma total_vat_loop:
  "foldl (\<lambda>acc task_price.
            then_do acc (\<lambda>total_vat.
              let task_type = get_or (tp_task_type task_price) '''';
                  materials_amount = get_or (tp_materials task_price) 0.0;
                  labor_amount = get_or (tp_labor task_price) 0.0
              in then_do (calculate_task_vat task_type materials_amount 0 age) (\<lambda>materials_vat.
                 then_do (calculate_task_vat task_type labor_amount 0 age) (\<lambda>labor_vat.
                   Inr (total_vat + (vat_amount materials_vat + vat_amount labor_vat))))))
          (Inr a) lines =
   Inr (a + sum_list (map line_vat lines))"
proof (induction lines arbitrary: a)
  case Nil
  then show ?case by simp
next
  case (Cons line lines)
  show ?case
    using Cons.IH
    by (simp add: then_do_def Let_def calculate_task_vat_def get_vat_rate_no_work_value
        line_vat_def line_materials_def line_labor_def mult.commute add.assoc)
qed

lemma calculate_total_vat_value:
  "calculate_total_vat lines 0 age = Inr (py_round (sum_list (map line_vat lines)) 2)"
  using total_vat_loop [of age 0 lines]
  by (simp add: calculate_total_vat_def then_do_def)

lemma cents_py_round: "cents (py_round x 2)"
  unfolding cents_def py_round_def by blast

lemma cents_add: "cents x \<Longrightarrow> cents y \<Longrightarrow> cents (x + y)"
proof -
  assume "cents x" "cents y"
  then obtain j k :: int where "x = of_int j / 10 ^ 2" "y = of_int k / 10 ^ 2"
    unfolding cents_def by blast
  then have "x + y = of_int (j + k) / 10 ^ 2" by (simp add: add_divide_distrib)
  then show ?thesis unfolding cents_def by blast
qed

lemma cents_sum_list: "(\<forall>x \<in> set xs. cents x) \<Longrightarrow> cents (sum_list xs)"
proof (induction xs)
  case Nil
  have "(0 :: real) = of_int 0 / 10 ^ 2" by simp
  then show ?case unfolding cents_def by (metis sum_list.Nil)
next
  case (Cons x xs)
  then show ?case by (simp add: cents_add)
qed

lemma py_round_cents:
  assumes "cents x"
  shows "py_round x 2 = x"
proof -
  from assms obtain k :: int where "x = of_int k / 10 ^ 2" unfolding cents_def by blast
  then show ?thesis by (simp only: py_round_of_int_div)
qed

lemma cents_line_vat: "cents (line_vat line)"
  unfolding line_vat_def by (intro cents_add cents_py_round)

lemma total_vat_is_sum: "py_round (sum_list (map line_vat lines)) 2 = sum_list (map line_vat lines)"
  by (intro py_round_cents cents_sum_list) (auto simp: cents_line_vat)


lemmas labor_defs = calculate_labor_cost_def get_task_duration_def hourly_rates_def
  base_time_estimates_def get_complexity_multiplier_def calculate_tiles_duration_def
  calculate_plumbing_duration_def calculate_painting_duration_def calculate_flooring_duration_def
  calculate_vanity_duration_def calculate_electrical_duration_def

lemma labor_bound:
  assumes "T0 \<le> T" and "0 \<le> r" and "0 < py_round (py_round T0 n * r) 2"
  shows "0 < py_round (py_round T n * r) 2"
proof -
  have "py_round T0 n \<le> py_round T n" using assms(1) by (rule py_round_mono)
  then have "py_round T0 n * r \<le> py_round T n * r" using assms(2) by (rule mult_right_mono)
  then have "py_round (py_round T0 n * r) 2 \<le> py_round (py_round T n * r) 2"
    by (rule py_round_mono)
  with assms(3) show ?thesis by linarith
qed

lemma labor_cost_tiles:
  assumes "0 \<le> sz"
  shows "\<exists>l. calculate_labor_cost ''tiles'' sz ''standard'' = Inr l \<and> 0 < l"
proof -
  have "0 < py_round (py_round (7 / 2 + 24 * sqrt sz) (Suc 0) * 45) 2"
    by (rule labor_bound [where ?T0.0 = "7 / 2"]) (use assms in \<open>simp_all add: round_defs\<close>)
  then show ?thesis using assms by (simp add: labor_defs dict_defs wall_area_def)
qed

lemma labor_cost_plumbing:
  "\<exists>l. calculate_labor_cost ''plumbing'' sz ''standard'' = Inr l \<and> 0 < l"
  by (simp add: labor_defs dict_defs round_defs)

lemma labor_cost_painting:
  assumes "0 \<le> sz"
  shows "\<exists>l. calculate_labor_cost ''painting'' sz ''standard'' = Inr l \<and> 0 < l"
proof -
  have "0 < py_round (py_round (5 / 2 + 72 * sqrt sz / 25) (Suc 0) * 35) 2"
    by (rule labor_bound [where ?T0.0 = "5 / 2"]) (use assms in \<open>simp_all add: round_defs\<close>)
  then show ?thesis using assms by (simp add: labor_defs dict_defs wall_area_def)
qed

lemma labor_cost_flooring:
  assumes "0 \<le> sz"
  shows "\<exists>l. calculate_labor_cost ''flooring'' sz ''standard'' = Inr l \<and> 0 < l"
proof -
  have "0 < py_round (py_round (3 + sz * 9 / 5) (Suc 0) * 40) 2"
    by (rule labor_bound [where ?T0.0 = 3]) (use assms in \<open>simp_all add: round_defs\<close>)
  then show ?thesis by (simp add: labor_defs dict_defs)
qed

lemma labor_cost_vanity:
  "\<exists>l. calculate_labor_cost ''vanity'' sz ''standard'' = Inr l \<and> 0 < l"
  by (simp add: labor_defs dict_defs round_defs)

lemma labor_cost_electrical:
  "\<exists>l. calculate_labor_cost ''electrical'' sz ''standard'' = Inr l \<and> 0 < l"
  by (simp add: labor_defs dict_defs outlets_for_def round_defs)

lemma canonical_task_cases:
  assumes "task \<in> set canonical_tasks"
  shows "task = ''tiles'' \<or> task = ''plumbing'' \<or> task = ''painting'' \<or>
         task = ''flooring'' \<or> task = ''vanity'' \<or> task = ''electrical''"
  using assms by (simp add: canonical_tasks_def)

lemma labor_cost_positive:
  assumes "task \<in> set canonical_tasks" and "0 \<le> sz"
  shows "\<exists>l. calculate_labor_cost task sz ''standard'' = Inr l \<and> 0 < l"
  using canonical_task_cases [OF assms(1)]
proof (elim disjE)
  assume t: "task = ''tiles''"
  show ?thesis unfolding t by (rule labor_cost_tiles [OF assms(2)])
next
  assume t: "task = ''plumbing''"
  show ?thesis unfolding t by (rule labor_cost_plumbing)
next
  assume t: "task = ''painting''"
  show ?thesis unfolding t by (rule labor_cost_painting [OF assms(2)])
next
  assume t: "task = ''flooring''"
  show ?thesis unfolding t by (rule labor_cost_flooring [OF assms(2)])
next
  assume t: "task = ''vanity''"
  show ?thesis unfolding t by (rule labor_cost_vanity)
next
  assume t: "task = ''electrical''"
  show ?thesis unfolding t by (rule labor_cost_electrical)
qed

lemma materials_cost_nonneg:
  assumes "task \<in> set canonical_tasks" and "0 \<le> sz"
  shows "\<exists>m. get_task_materials_cost task sz ''standard'' = Inr m \<and> 0 \<le> m"
  using canonical_task_cases [OF assms(1)]
proof (elim disjE)
  assume t: "task = ''tiles''"
  show ?thesis unfolding t using assms(2)
    by (simp add: material_defs dict_defs py_round_nonneg)
next
  assume t: "task = ''plumbing''"
  show ?thesis unfolding t by (simp add: plumbing_cost_value py_round_nonneg)
next
  assume t: "task = ''painting''"
  show ?thesis unfolding t using assms(2)
    by (simp add: material_defs dict_defs py_round_nonneg)
next
  assume t: "task = ''flooring''"
  show ?thesis unfolding t using assms(2)
    by (simp add: material_defs dict_defs py_round_nonneg)
next
  assume t: "task = ''vanity''"
  show ?thesis unfolding t by (simp add: material_defs dict_defs py_round_nonneg)
next
  assume t: "task = ''electrical''"
  show ?thesis unfolding t by (simp add: material_defs dict_defs py_round_nonneg)
qed

lemma task_duration_total:
  assumes "0 \<le> sz"
  shows "\<exists>d. get_task_duration task sz ''standard'' = Inr d"
  using assms by (simp add: labor_defs dict_defs)

lemma find_in_set: "find P xs = Some x \<Longrightarrow> x \<in> set xs"
  by (induction xs) (auto split: if_splits)

lemma city_multiplier_at_least_one: "map_of city_multipliers loc = Some cm \<Longrightarrow> 1 \<le> cm"
  by (auto simp: city_multipliers_def split: if_splits)

lemma extract_location_known: "\<exists>cm. map_of city_multipliers (extract_location s) = Some cm \<and> 1 \<le> cm"
proof -
  have "extract_location s \<in> set (map fst city_multipliers)"
  proof (cases "find (\<lambda>city. contains (str city) s) (map fst city_multipliers)")
    case None
    then show ?thesis by (simp add: extract_location_def city_multipliers_def)
  next
    case (Some city)
    then have "city \<in> set (map fst city_multipliers)" by (rule find_in_set)
    with Some show ?thesis by (simp add: extract_location_def)
  qed
  then have "map_of city_multipliers (extract_location s) \<noteq> None"
    by (simp add: map_of_eq_None_iff)
  then obtain cm where "map_of city_multipliers (extract_location s) = Some cm" by auto
  with city_multiplier_at_least_one show ?thesis by blast
qed

lemma extract_tasks_canonical: "set (extract_tasks s) \<subseteq> set canonical_tasks"
proof -
  have "set (extract_tasks s) \<subseteq> set (map fst task_keywords)"
    unfolding extract_tasks_def by auto
  then show ?thesis by (simp add: task_keywords_def canonical_tasks_def)
qed

lemma to_float_nonneg: "0 \<le> to_float U g"
  by (simp add: to_float_def)

lemma parse_transcript_fields:
  assumes "parse_transcript U transcript = Inr reqs"
  shows "\<exists>sz loc cm tasks b.
           rq_bathroom_size reqs = Some sz \<and> 0 \<le> sz \<and>
           rq_location reqs = Some loc \<and> map_of city_multipliers loc = Some cm \<and> 1 \<le> cm \<and>
           rq_tasks reqs = Some tasks \<and> tasks \<noteq> [] \<and> set tasks \<subseteq> set canonical_tasks \<and>
           rq_budget_conscious reqs = Some b"
proof -
  let ?s = "strip U (lower U transcript)"
  let ?sz = "case search_size U ?s of Some g \<Rightarrow> to_float U g | None \<Rightarrow> 4.0"
  let ?ts = "if extract_tasks ?s = [] then [''painting''] else extract_tasks ?s"
  have r: "rq_bathroom_size reqs = Some ?sz" "rq_location reqs = Some (extract_location ?s)"
    "rq_tasks reqs = Some ?ts" "rq_budget_conscious reqs \<noteq> None"
    using assms by (auto simp: parse_transcript_def Let_def split: if_splits)
  have sz: "0 \<le> ?sz" by (simp add: to_float_nonneg split: option.split)
  obtain cm where cm: "map_of city_multipliers (extract_location ?s) = Some cm" "1 \<le> cm"
    using extract_location_known [of ?s] by blast
  have "set (extract_tasks ?s) \<subseteq> set canonical_tasks"
    by (rule extract_tasks_canonical)
  then have ts: "?ts \<noteq> []" "set ?ts \<subseteq> set canonical_tasks"
    by (simp_all add: canonical_tasks_def)
  from r(4) obtain b where "rq_budget_conscious reqs = Some b" by auto
  with r sz cm ts show ?thesis by blast
qed


lemma task_duration_hours:
  "0 \<le> sz \<Longrightarrow> get_task_duration task sz ''standard'' = Inr (task_hours sz task)"
  using task_duration_total [of sz task] by (auto simp: task_hours_def)

lemma total_duration_loop:
  assumes "rq_bathroom_size reqs = Some sz" and "0 \<le> sz"
  shows "foldl (\<lambda>acc line.
        then_do acc (\<lambda>total.
        then_do (required (tp_task line) ''task'') (\<lambda>task.
        then_do (required (rq_bathroom_size reqs) ''bathroom_size'') (\<lambda>bathroom_size.
        then_do (get_task_duration task bathroom_size ''standard'') (\<lambda>duration.
          Inr (total + duration))))))
       (Inr a) (map (\<lambda>task. calculate_task_price task reqs) tasks) =
     Inr (a + sum_list (map (task_hours sz) tasks))"
proof (induction tasks arbitrary: a)
  case Nil
  then show ?case by simp
next
  case (Cons task tasks)
  show ?case
    using Cons.IH assms
    by (simp add: then_do_def required_def calculate_task_price_fields task_duration_hours add.assoc)
qed

lemma calculate_total_duration_value:
  assumes "rq_bathroom_size reqs = Some sz" and "0 \<le> sz"
  shows "calculate_total_duration (map (\<lambda>task. calculate_task_price task reqs) tasks) reqs =
     Inr (sum_list (map (task_hours sz) tasks))"
  using total_duration_loop [OF assms, of 0 tasks]
  by (simp add: calculate_total_duration_def)

text \<open>What \<open>generate_quote\<close> returns for a transcript that the extractor accepts.\<close>

lemma generate_quote_value:
  assumes p: "parse_transcript U transcript = Inr reqs"
    and r: "rq_bathroom_size reqs = Some sz" "0 \<le> sz" "rq_location reqs = Some loc"
      "map_of city_multipliers loc = Some cm" "rq_tasks reqs = Some tasks"
      "rq_budget_conscious reqs = Some b"
    and l: "lines = map (\<lambda>task. calculate_task_price task reqs) tasks"
    and v: "vat = sum_list (map line_vat lines)"
    and s: "subtotal = sum_list (map line_labor lines) + sum_list (map line_materials lines)"
    and f: "final = apply_margin_protection (subtotal + vat) b"
  shows "generate_quote U now flags transcript =
     (Inr \<lparr>q_quote_id = ''DQ'' @ stamp_id now,
           q_generated_at = stamp_generated now,
           q_client_requirements = reqs,
           q_tasks = lines,
           q_labor_total = sum_list (map line_labor lines),
           q_materials_total = sum_list (map line_materials lines),
           q_vat_amount = vat,
           q_subtotal = subtotal,
           q_final_price = final,
           q_confidence_score = fst (calculate_confidence reqs lines final flags),
           q_margin_percentage = calculate_margin_percentage subtotal final,
           q_city_multiplier = cm,
           q_total_duration = sum_list (map (task_hours sz) tasks),
           q_estimated_duration = sum_list (map (task_hours sz) tasks),
           q_version = ''1.0.0'',
           q_generated_by = ''Donizo Smart Pricing Engine'',
           q_algorithm_version = ''2.1.0'',
           q_last_updated = stamp_updated now\<rparr>,
      snd (calculate_confidence reqs lines final flags))"
proof -
  have pt: "price_tasks reqs =
      Inr \<lparr>pr_task_prices = lines, pr_total_labor = sum_list (map line_labor lines),
           pr_total_materials = sum_list (map line_materials lines)\<rparr>"
    using price_tasks_value [OF r(5)] by (simp add: l comp_def)
  have tv: "calculate_total_vat lines 0 10 = Inr vat"
    using calculate_total_vat_value [of lines 10] by (simp add: total_vat_is_sum v)
  have td: "calculate_total_duration lines reqs = Inr (sum_list (map (task_hours sz) tasks))"
    unfolding l by (rule calculate_total_duration_value [OF r(1,2)])
  show ?thesis
    unfolding generate_quote_def
    by (simp add: p pt tv td r required_def subscript_def then_do_def s f Let_def split: prod.split)
qed


lemma calculate_task_price_value:
  assumes "rq_bathroom_size reqs = Some sz" and "0 \<le> sz" and "rq_location reqs = Some loc"
    and "map_of city_multipliers loc = Some cm" and "task \<in> set canonical_tasks"
  shows "\<exists>m l. 0 \<le> m \<and> 0 < l \<and>
           calculate_task_price task reqs =
             \<lparr>tp_task = Some task, tp_task_type = None, tp_materials = Some (m * cm),
              tp_labor = Some (l * cm), tp_total = Some (m * cm + l * cm),
              tp_city_multiplier = Some cm, tp_error = None\<rparr>"
proof -
  obtain m where m: "get_task_materials_cost task sz ''standard'' = Inr m" "0 \<le> m"
    using materials_cost_nonneg [OF assms(5,2)] by blast
  obtain l where l: "calculate_labor_cost task sz ''standard'' = Inr l" "0 < l"
    using labor_cost_positive [OF assms(5,2)] by blast
  have "calculate_task_price task reqs =
      \<lparr>tp_task = Some task, tp_task_type = None, tp_materials = Some (m * cm),
       tp_labor = Some (l * cm), tp_total = Some (m * cm + l * cm),
       tp_city_multiplier = Some cm, tp_error = None\<rparr>"
    by (simp add: calculate_task_price_def assms(1,3,4) m(1) l(1) required_def subscript_def
        then_do_def Let_def)
  with m(2) l(2) show ?thesis by blast
qed

lemma line_amounts:
  assumes "rq_bathroom_size reqs = Some sz" and "0 \<le> sz" and "rq_location reqs = Some loc"
    and "map_of city_multipliers loc = Some cm" and "task \<in> set canonical_tasks"
  shows "0 < line_labor (calculate_task_price task reqs)"
    and "0 \<le> line_materials (calculate_task_price task reqs)"
proof -
  obtain m l where ml: "0 \<le> m" "0 < l"
    "calculate_task_price task reqs =
       \<lparr>tp_task = Some task, tp_task_type = None, tp_materials = Some (m * cm),
        tp_labor = Some (l * cm), tp_total = Some (m * cm + l * cm),
        tp_city_multiplier = Some cm, tp_error = None\<rparr>"
    using calculate_task_price_value [OF assms] by blast
  have cm: "1 \<le> cm" using assms(4) by (rule city_multiplier_at_least_one)
  show "0 < line_labor (calculate_task_price task reqs)"
    using ml(2) cm by (simp add: ml(3) line_labor_def get_or_def)
  show "0 \<le> line_materials (calculate_task_price task reqs)"
    using ml(1) cm by (simp add: ml(3) line_materials_def get_or_def)
qed

lemma sum_list_positive:
  fixes xs :: "real list"
  assumes "xs \<noteq> []" and "\<forall>x \<in> set xs. 0 < x"
  shows "0 < sum_list xs"
  using assms by (induction xs) (auto intro: add_pos_nonneg sum_list_nonneg less_imp_le)

lemma line_vat_nonneg:
  assumes "0 \<le> line_labor line" and "0 \<le> line_materials line"
  shows "0 \<le> line_vat line"
  unfolding line_vat_def using assms by (intro add_nonneg_nonneg py_round_nonneg) simp_all

text \<open>
  C2. The VAT amount of every generated quote is the sum over its price lines of
  round(0.20 * materials, 2) + round(0.20 * labor, 2): the standard rate for every task,
  whatever its VAT class. The lines that the engine builds carry the key \<open>task\<close> and no
  key \<open>task_type\<close>, which is the one that \<open>calculate_total_vat\<close> reads, and the work
  value is left at 0.
\<close>

theorem quote_vat_at_standard_rate:
  assumes "generate_quote U now flags transcript = (Inr q, flags')"
  shows "q_vat_amount q =
           sum_list (map (\<lambda>line. py_round (0.20 * get_or (tp_materials line) 0) 2 +
                                   py_round (0.20 * get_or (tp_labor line) 0) 2) (q_tasks q)) \<and>
         (\<forall>line \<in> set (q_tasks q). tp_task_type line = None \<and> tp_task line \<noteq> None)"
proof -
  obtain reqs where p: "parse_transcript U transcript = Inr reqs"
    using assms by (cases "parse_transcript U transcript") (simp_all add: generate_quote_def failed_def)
  obtain sz loc cm tasks b where r: "rq_bathroom_size reqs = Some sz" "0 \<le> sz"
      "rq_location reqs = Some loc" "map_of city_multipliers loc = Some cm"
      "rq_tasks reqs = Some tasks" "rq_budget_conscious reqs = Some b"
    using parse_transcript_fields [OF p] by blast
  let ?lines = "map (\<lambda>task. calculate_task_price task reqs) tasks"
  from generate_quote_value [OF p r refl refl refl refl, of now flags] assms
  have q: "q_tasks q = ?lines" "q_vat_amount q = sum_list (map line_vat ?lines)"
    by auto
  have "\<forall>line \<in> set ?lines. tp_task_type line = None \<and> tp_task line \<noteq> None"
    by (simp add: calculate_task_price_fields)
  moreover have "line_vat = (\<lambda>line. py_round (0.20 * get_or (tp_materials line) 0) 2 +
                                   py_round (0.20 * get_or (tp_labor line) 0) 2)"
    by (rule ext) (simp add: line_vat_def line_materials_def line_labor_def)
  ultimately show ?thesis using q by simp
qed

text \<open>
  C1. For every transcript that the extractor accepts, a quote is generated, and its
  final price is (subtotal + vat\_amount) * (1 + margin), where the subtotal is the sum
  of the labour and the materials of all price lines and the margin is 0.15 when the
  requirement is budget-conscious and 0.25 otherwise; the sum subtotal + vat\_amount is
  positive, and final\_price / (subtotal + vat\_amount) - 1 is the margin.
\<close>

theorem final_price_applies_margin:
  assumes "parse_transcript U transcript = Inr reqs"
  shows "\<exists>q flags'.
           generate_quote U now flags transcript = (Inr q, flags') \<and>
           q_subtotal q = sum_list (map (\<lambda>line. line_labor line + line_materials line) (q_tasks q)) \<and>
           0 < q_subtotal q + q_vat_amount q \<and>
           q_final_price q =
             (q_subtotal q + q_vat_amount q) *
             (1 + (if rq_budget_conscious reqs = Some True then 0.15 else 0.25)) \<and>
           q_final_price q / (q_subtotal q + q_vat_amount q) - 1 =
             (if rq_budget_conscious reqs = Some True then 0.15 else 0.25)"
proof -
  obtain sz loc cm tasks b where r: "rq_bathroom_size reqs = Some sz" "0 \<le> sz"
      "rq_location reqs = Some loc" "map_of city_multipliers loc = Some cm"
      "rq_tasks reqs = Some tasks" "rq_budget_conscious reqs = Some b"
    and t: "tasks \<noteq> []" "set tasks \<subseteq> set canonical_tasks"
    using parse_transcript_fields [OF assms] by blast
  define lines where "lines = map (\<lambda>task. calculate_task_price task reqs) tasks"
  define V where "V = sum_list (map line_vat lines)"
  define S where "S = sum_list (map line_labor lines) + sum_list (map line_materials lines)"
  define F where "F = apply_margin_protection (S + V) b"
  let ?m = "if b then 0.15 else (0.25 :: real)"
  let ?Q = "\<lparr>q_quote_id = ''DQ'' @ stamp_id now,
           q_generated_at = stamp_generated now,
           q_client_requirements = reqs,
           q_tasks = lines,
           q_labor_total = sum_list (map line_labor lines),
           q_materials_total = sum_list (map line_materials lines),
           q_vat_amount = V,
           q_subtotal = S,
           q_final_price = F,
           q_confidence_score = fst (calculate_confidence reqs lines F flags),
           q_margin_percentage = calculate_margin_percentage S F,
           q_city_multiplier = cm,
           q_total_duration = sum_list (map (task_hours sz) tasks),
           q_estimated_duration = sum_list (map (task_hours sz) tasks),
           q_version = ''1.0.0'',
           q_generated_by = ''Donizo Smart Pricing Engine'',
           q_algorithm_version = ''2.1.0'',
           q_last_updated = stamp_updated now\<rparr>"
  have gq: "generate_quote U now flags transcript =
      (Inr ?Q, snd (calculate_confidence reqs lines F flags))"
    by (rule generate_quote_value [OF assms r lines_def V_def S_def F_def])
  have lab: "\<forall>line \<in> set lines. 0 < line_labor line"
    unfolding lines_def using line_amounts(1) [OF r(1-4)] t(2) by auto
  have mat: "\<forall>line \<in> set lines. 0 \<le> line_materials line"
    unfolding lines_def using line_amounts(2) [OF r(1-4)] t(2) by auto
  have "lines \<noteq> []" using t(1) by (simp add: lines_def)
  then have "0 < sum_list (map line_labor lines)"
    using lab by (intro sum_list_positive) auto
  moreover have "0 \<le> sum_list (map line_materials lines)"
    using mat by (intro sum_list_nonneg) auto
  moreover have "0 \<le> V"
    unfolding V_def using lab mat by (intro sum_list_nonneg) (auto intro: line_vat_nonneg less_imp_le)
  ultimately have pos: "0 < S + V" unfolding S_def by linarith
  have fin: "F = (S + V) * (1 + ?m)"
    by (simp add: F_def apply_margin_protection_def)
  have ratio: "F / (S + V) - 1 = ?m"
  proof -
    have "S + V \<noteq> 0" using pos by simp
    then have "(S + V) * (1 + ?m) / (S + V) = 1 + ?m" by (rule nonzero_mult_div_cancel_left)
    then show ?thesis unfolding fin by linarith
  qed
  have split: "S = sum_list (map (\<lambda>line. line_labor line + line_materials line) lines)"
    by (simp add: S_def sum_list_addf)
  have m: "(if rq_budget_conscious reqs = Some True then 0.15 else 0.25) = ?m"
    by (simp add: r(6))
  have "q_subtotal ?Q = sum_list (map (\<lambda>line. line_labor line + line_materials line) (q_tasks ?Q)) \<and>
      0 < q_subtotal ?Q + q_vat_amount ?Q \<and>
      q_final_price ?Q = (q_subtotal ?Q + q_vat_amount ?Q) * (1 + ?m) \<and>
      q_final_price ?Q / (q_subtotal ?Q + q_vat_amount ?Q) - 1 = ?m"
    using split pos fin ratio by (simp only: quote.select_convs simp_thms)
  with gq show ?thesis unfolding m by blast
qed


lemma scenario_parsed: "parse_transcript ascii scenario_transcript = Inr scenario_requirements"
  unfolding scenario_requirements_def scenario_transcript_def by code_simp

lemma scenario_lines_value:
  "map (\<lambda>task. calculate_task_price task scenario_requirements) [''tiles'', ''plumbing''] =
     scenario_lines"
  by (simp add: calculate_task_price_def scenario_requirements_def scenario_lines_def
      material_defs labor_defs dict_defs round_defs city_multipliers_def)

lemma scenario_sums:
  "sum_list (map line_labor scenario_lines) = 3307.5"
  "sum_list (map line_materials scenario_lines) = 1568.55"
  "sum_list (map line_vat scenario_lines) = 975.21"
  by (simp_all add: scenario_lines_def line_labor_def line_materials_def line_vat_def get_or_def
      round_defs)

lemma scenario_hours:
  "sum_list (map (task_hours 4) [''tiles'', ''plumbing'']) = 69.5"
  by (simp add: task_hours_def labor_defs dict_defs wall_area_def round_defs)

lemma scenario_confidence:
  "calculate_confidence scenario_requirements scenario_lines 7314.075 [] =
     (78.4, [''suspiciously_high''])"
  by (simp add: scorer_defs scorer_tables scenario_requirements_def scenario_lines_def get_or_def
      get_default_def round_defs Let_def)

lemma scenario_generated:
  "generate_quote ascii sample_clock [] scenario_transcript =
     (Inr scenario_quote, [''suspiciously_high''])"
proof -
  have f: "(7314.075 :: real) = apply_margin_protection (4876.05 + 975.21) False"
    by (simp add: apply_margin_protection_def)
  have "generate_quote ascii sample_clock [] scenario_transcript =
      (Inr \<lparr>q_quote_id = ''DQ'' @ stamp_id sample_clock,
           q_generated_at = stamp_generated sample_clock,
           q_client_requirements = scenario_requirements,
           q_tasks = scenario_lines,
           q_labor_total = sum_list (map line_labor scenario_lines),
           q_materials_total = sum_list (map line_materials scenario_lines),
           q_vat_amount = 975.21,
           q_subtotal = 4876.05,
           q_final_price = 7314.075,
           q_confidence_score = fst (calculate_confidence scenario_requirements scenario_lines 7314.075 []),
           q_margin_percentage = calculate_margin_percentage 4876.05 7314.075,
           q_city_multiplier = 1,
           q_total_duration = sum_list (map (task_hours 4) [''tiles'', ''plumbing'']),
           q_estimated_duration = sum_list (map (task_hours 4) [''tiles'', ''plumbing'']),
           q_version = ''1.0.0'',
           q_generated_by = ''Donizo Smart Pricing Engine'',
           q_algorithm_version = ''2.1.0'',
           q_last_updated = stamp_updated sample_clock\<rparr>,
       snd (calculate_confidence scenario_requirements scenario_lines 7314.075 []))"
  proof (rule generate_quote_value [OF scenario_parsed _ _ _ _ _ _ _ _ _ f])
    show "rq_bathroom_size scenario_requirements = Some 4" "(0 :: real) \<le> 4"
      "rq_location scenario_requirements = Some ''marseille''"
      "map_of city_multipliers ''marseille'' = Some 1"
      "rq_tasks scenario_requirements = Some [''tiles'', ''plumbing'']"
      "rq_budget_conscious scenario_requirements = Some False"
      by (simp_all add: scenario_requirements_def city_multipliers_def)
    show "scenario_lines = map (\<lambda>task. calculate_task_price task scenario_requirements)
        [''tiles'', ''plumbing'']"
      by (simp only: scenario_lines_value)
    show "(975.21 :: real) = sum_list (map line_vat scenario_lines)"
      by (simp only: scenario_sums)
    show "(4876.05 :: real) =
        sum_list (map line_labor scenario_lines) + sum_list (map line_materials scenario_lines)"
      by (simp add: scenario_sums)
  qed
  then show ?thesis
    using scenario_hours scenario_confidence
    by (simp add: scenario_sums scenario_quote_def sample_clock_def calculate_margin_percentage_def)
qed


theorem quote_vat_at_standard_rate_witness:
  "generate_quote ascii sample_clock [] scenario_transcript =
     (Inr scenario_quote, [''suspiciously_high'']) \<and>
   q_vat_amount scenario_quote = 975.21 \<and>
   py_round (0.20 * 820.8) 2 + py_round (0.20 * 2317.5) 2 +
     (py_round (0.20 * 747.75) 2 + py_round (0.20 * 990) 2) = (975.21 :: real) \<and>
   map tp_task (q_tasks scenario_quote) = [Some ''tiles'', Some ''plumbing''] \<and>
   map tp_task_type (q_tasks scenario_quote) = [None, None] \<and>
   get_vat_rate ''tiles'' 4876.05 10 = Inr 0.10"
proof -
  from quote_vat_at_standard_rate [OF scenario_generated]
  have "q_vat_amount scenario_quote =
      sum_list (map (\<lambda>line. py_round (0.20 * get_or (tp_materials line) 0) 2 +
                              py_round (0.20 * get_or (tp_labor line) 0) 2) (q_tasks scenario_quote))"
    by blast
  then have "py_round (0.20 * 820.8) 2 + py_round (0.20 * 2317.5) 2 +
     (py_round (0.20 * 747.75) 2 + py_round (0.20 * 990) 2) = (975.21 :: real)"
    by (simp add: scenario_quote_def scenario_lines_def get_or_def)
  moreover have "get_vat_rate ''tiles'' 4876.05 10 = Inr 0.10"
    by (simp add: get_vat_rate_def is_eligible_for_reduced_vat_def subscript_def then_do_def
        vat_rates_def vat_conditions_def task_vat_classification_def)
  ultimately show ?thesis
    using scenario_generated by (simp add: scenario_quote_def scenario_lines_def)
qed


lemma budget_parsed: "parse_transcript ascii budget_transcript = Inr budget_requirements"
  unfolding budget_requirements_def budget_transcript_def by code_simp

lemma budget_lines_value:
  "map (\<lambda>task. calculate_task_price task budget_requirements) [''plumbing''] = budget_lines"
  by (simp add: calculate_task_price_def budget_requirements_def budget_lines_def
      material_defs labor_defs dict_defs round_defs city_multipliers_def)

lemma budget_sums:
  "sum_list (map line_labor budget_lines) = 990"
  "sum_list (map line_materials budget_lines) = 747.75"
  "sum_list (map line_vat budget_lines) = 347.55"
  by (simp_all add: budget_lines_def line_labor_def line_materials_def line_vat_def get_or_def
      round_defs)

lemma budget_hours: "sum_list (map (task_hours 4) [''plumbing'']) = 18"
  by (simp add: task_hours_def labor_defs dict_defs round_defs)

lemma budget_confidence:
  "calculate_confidence budget_requirements budget_lines 2398.095 [] =
     (76.1, [''single_task_project'', ''missing_essential_tasks: tiles'', ''above_average''])"
  by (simp add: scorer_defs scorer_tables budget_requirements_def budget_lines_def get_or_def
      get_default_def round_defs Let_def)

lemma budget_generated:
  "generate_quote ascii sample_clock [] budget_transcript =
     (Inr budget_quote, [''single_task_project'', ''missing_essential_tasks: tiles'', ''above_average''])"
proof -
  have f: "(2398.095 :: real) = apply_margin_protection (1737.75 + 347.55) True"
    by (simp add: apply_margin_protection_def)
  have "generate_quote ascii sample_clock [] budget_transcript =
      (Inr \<lparr>q_quote_id = ''DQ'' @ stamp_id sample_clock,
           q_generated_at = stamp_generated sample_clock,
           q_client_requirements = budget_requirements,
           q_tasks = budget_lines,
           q_labor_total = sum_list (map line_labor budget_lines),
           q_materials_total = sum_list (map line_materials budget_lines),
           q_vat_amount = 347.55,
           q_subtotal = 1737.75,
           q_final_price = 2398.095,
           q_confidence_score = fst (calculate_confidence budget_requirements budget_lines 2398.095 []),
           q_margin_percentage = calculate_margin_percentage 1737.75 2398.095,
           q_city_multiplier = 1,
           q_total_duration = sum_list (map (task_hours 4) [''plumbing'']),
           q_estimated_duration = sum_list (map (task_hours 4) [''plumbing'']),
           q_version = ''1.0.0'',
           q_generated_by = ''Donizo Smart Pricing Engine'',
           q_algorithm_version = ''2.1.0'',
           q_last_updated = stamp_updated sample_clock\<rparr>,
       snd (calculate_confidence budget_requirements budget_lines 2398.095 []))"
  proof (rule generate_quote_value [OF budget_parsed _ _ _ _ _ _ _ _ _ f])
    show "rq_bathroom_size budget_requirements = Some 4" "(0 :: real) \<le> 4"
      "rq_location budget_requirements = Some ''marseille''"
      "map_of city_multipliers ''marseille'' = Some 1"
      "rq_tasks budget_requirements = Some [''plumbing'']"
      "rq_budget_conscious budget_requirements = Some True"
      by (simp_all add: budget_requirements_def city_multipliers_def)
    show "budget_lines = map (\<lambda>task. calculate_task_price task budget_requirements) [''plumbing'']"
      by (simp only: budget_lines_value)
    show "(347.55 :: real) = sum_list (map line_vat budget_lines)"
      by (simp only: budget_sums)
    show "(1737.75 :: real) =
        sum_list (map line_labor budget_lines) + sum_list (map line_materials budget_lines)"
      by (simp add: budget_sums)
  qed
  then show ?thesis
    using budget_hours budget_confidence
    by (simp add: budget_sums budget_quote_def sample_clock_def calculate_margin_percentage_def)
qed

theorem final_price_applies_margin_witness:
  "parse_transcript ascii budget_transcript = Inr budget_requirements \<and>
   generate_quote ascii sample_clock [] budget_transcript =
     (Inr budget_quote, [''single_task_project'', ''missing_essential_tasks: tiles'', ''above_average'']) \<and>
   q_subtotal budget_quote = 990 + 747.75 \<and>
   q_final_price budget_quote = (q_subtotal budget_quote + q_vat_amount budget_quote) * (1 + 0.15) \<and>
   q_final_price budget_quote / (q_subtotal budget_quote + q_vat_amount budget_quote) - 1 = 0.15"
proof -
  from final_price_applies_margin [OF budget_parsed, of sample_clock "[]"]
  obtain q flags' where q: "generate_quote ascii sample_clock [] budget_transcript = (Inr q, flags')"
    "q_final_price q =
       (q_subtotal q + q_vat_amount q) *
       (1 + (if rq_budget_conscious budget_requirements = Some True then 0.15 else 0.25))"
    "q_final_price q / (q_subtotal q + q_vat_amount q) - 1 =
       (if rq_budget_conscious budget_requirements = Some True then 0.15 else 0.25)"
    by blast
  from q(1) budget_generated have "q = budget_quote" by simp
  moreover have "rq_budget_conscious budget_requirements = Some True"
    by (simp add: budget_requirements_def)
  moreover have "q_subtotal budget_quote = 990 + 747.75" by (simp add: budget_quote_def)
  ultimately show ?thesis using q(2,3) budget_parsed budget_generated by simp
qed

subsection \<open>The quality tiers\<close>

text \<open>
  The tiers that every table defines are in order: for every task and every size that is
  not negative, the cost at \<open>basic\<close> is at most the cost at \<open>standard\<close>, which is at
  most the cost at \<open>premium\<close>. A task that the database does not know costs 0.
\<close>

lemma unknown_task_costs_nothing:
  assumes "task \<notin> set canonical_tasks"
  shows "get_task_materials_cost task sz quality = Inr 0"
  using assms by (simp add: get_task_materials_cost_def materials_def load_default_materials_def
      has_key_def canonical_tasks_def)

lemma defined_tiers_monotone:
  assumes "0 \<le> sz"
  shows "\<exists>a b c.
           get_task_materials_cost task sz ''basic'' = Inr a \<and>
           get_task_materials_cost task sz ''standard'' = Inr b \<and>
           get_task_materials_cost task sz ''premium'' = Inr c \<and> a \<le> b \<and> b \<le> c"
proof (cases "task \<in> set canonical_tasks")
  case False
  then show ?thesis by (simp add: unknown_task_costs_nothing)
next
  case True
  have s: "0 \<le> sqrt sz" using assms by simp
  from canonical_task_cases [OF True] show ?thesis
  proof (elim disjE)
    assume t: "task = ''tiles''"
    show ?thesis unfolding t using assms s
      by (simp add: material_defs dict_defs py_round_mono mult_left_mono)
  next
    assume t: "task = ''plumbing''"
    show ?thesis unfolding t by (simp add: plumbing_cost_value)
  next
    assume t: "task = ''painting''"
    show ?thesis unfolding t using assms s
      by (simp add: material_defs dict_defs py_round_mono mult_left_mono)
  next
    assume t: "task = ''flooring''"
    show ?thesis unfolding t using assms
      by (simp add: material_defs dict_defs py_round_mono mult_left_mono)
  next
    assume t: "task = ''vanity''"
    show ?thesis unfolding t
      by (simp add: material_defs dict_defs py_round_mono)
  next
    assume t: "task = ''electrical''"
    show ?thesis unfolding t
      by (simp add: material_defs dict_defs)
  qed
qed

end
